theory Spec2Isabelle
  imports Main "HOL-Library.Word"
begin

unbundle bit_operations_syntax

section \<open>Errors\<close>

text \<open>
  \<^verbatim>\<open>enum drgn_error_code\<close> of \<^verbatim>\<open>drgn.h\<close>, in the order of the header, followed by the
  codes that \<^verbatim>\<open>stack_trace.c\<close> uses and the header does not list. An error value is a code
  with its message; for \<^verbatim>\<open>drgn_error_format\<close> the message kept is the format string, without
  its quotation marks.
  \<^verbatim>\<open>(struct drgn_error *)-1\<close>, which \<^verbatim>\<open>read_die\<close> returns for a null entry, is
  \<open>Sentinel\<close>.
\<close>

datatype drgn_error_code =
    DRGN_ERROR_NO_MEMORY
  | DRGN_ERROR_STOP
  | DRGN_ERROR_OTHER
  | DRGN_ERROR_INVALID_ARGUMENT
  | DRGN_ERROR_OVERFLOW
  | DRGN_ERROR_RECURSION
  | DRGN_ERROR_OS
  | DRGN_ERROR_ELF_FORMAT
  | DRGN_ERROR_DWARF_FORMAT
  | DRGN_ERROR_MISSING_DEBUG
  | DRGN_ERROR_SYNTAX
  | DRGN_ERROR_LOOKUP
  | DRGN_ERROR_FAULT
  | DRGN_ERROR_TYPE
  | DRGN_ERROR_ZERO_DIVISION
  | DRGN_ERROR_OUT_OF_BOUNDS
  | DRGN_ERROR_VAR_OPTIMIZED_OUT
  | DRGN_ERROR_VAR_LOCATION_UNAVAILABLE
  | DRGN_ERROR_VAR_VALUE_UNAVAILABLE

datatype drgn_error = Error drgn_error_code string | Sentinel

fun error_code :: "drgn_error \<Rightarrow> drgn_error_code option" where
  "error_code (Error c m) = Some c"
| "error_code Sentinel = None"

definition drgn_error_create :: "drgn_error_code \<Rightarrow> string \<Rightarrow> drgn_error" where
  "drgn_error_create c m = Error c m"

definition drgn_error_format :: "drgn_error_code \<Rightarrow> string \<Rightarrow> drgn_error" where
  "drgn_error_format c fmt = Error c fmt"

definition drgn_enomem :: drgn_error where
  "drgn_enomem = Error DRGN_ERROR_NO_MEMORY ''cannot allocate memory''"

definition SIZE_MAX :: nat where
  "SIZE_MAX = 2 ^ 64 - 1"

definition UINT64_MAX :: "64 word" where
  "UINT64_MAX = 0xFFFFFFFFFFFFFFFF"

section \<open>language_c.c: integer literals\<close>

text \<open>
  The token kinds are the anonymous \<^verbatim>\<open>enum\<close> of the lexer, \<^verbatim>\<open>C_TOKEN_EOF = -1\<close> first.
  A token is the pair \<^verbatim>\<open>(value, len)\<close> of the lexer: \<open>tok_value\<close> is the input from the
  first character of the token on, \<open>tok_len\<close> the number of characters of the token.
  \<open>c_at s i\<close> is \<^verbatim>\<open>s[i]\<close>; the input is nul-terminated, so the character at its length
  is the terminator. A C \<^verbatim>\<open>char\<close> is signed: \<open>char_to_int\<close> is its value as an \<^verbatim>\<open>int\<close>.
\<close>

datatype c_token_kind =
    C_TOKEN_EOF
  | C_TOKEN_VOID
  | C_TOKEN_CHAR
  | C_TOKEN_SHORT
  | C_TOKEN_INT
  | C_TOKEN_LONG
  | C_TOKEN_SIGNED
  | C_TOKEN_UNSIGNED
  | C_TOKEN_BOOL
  | C_TOKEN_FLOAT
  | C_TOKEN_DOUBLE
  | C_TOKEN_COMPLEX
  | C_TOKEN_CONST
  | C_TOKEN_RESTRICT
  | C_TOKEN_VOLATILE
  | C_TOKEN_ATOMIC
  | C_TOKEN_STRUCT
  | C_TOKEN_UNION
  | C_TOKEN_ENUM
  | C_TOKEN_LPAREN
  | C_TOKEN_RPAREN
  | C_TOKEN_LBRACKET
  | C_TOKEN_RBRACKET
  | C_TOKEN_ASTERISK
  | C_TOKEN_DOT
  | C_TOKEN_NUMBER
  | C_TOKEN_IDENTIFIER

record drgn_token =
  tok_kind :: c_token_kind
  tok_value :: string
  tok_len :: nat

definition c_at :: "string \<Rightarrow> nat \<Rightarrow> char" where
  "c_at s i = (if i < length s then s ! i else CHR 0x00)"

definition char_to_int :: "char \<Rightarrow> int" where
  "char_to_int c = sint (of_char c :: 8 word)"

text \<open>
  The three loops of \<^verbatim>\<open>c_token_to_u64\<close>, each over the characters \<open>i..len-1\<close> of the
  token. \<open>x\<close> is a \<^verbatim>\<open>uint64_t\<close>; \<open>digit\<close> is an \<^verbatim>\<open>int\<close>, converted to
  \<^verbatim>\<open>uint64_t\<close> where it meets \<open>x\<close> or \<^verbatim>\<open>UINT64_MAX\<close>. \<^verbatim>\<open>goto overflow\<close> is the
  invalid-argument error.
\<close>

definition number_too_large :: drgn_error where
  "number_too_large = drgn_error_create DRGN_ERROR_INVALID_ARGUMENT ''number is too large''"

fun c_token_hex_loop :: "char list \<Rightarrow> 64 word \<Rightarrow> drgn_error + 64 word" where
  "c_token_hex_loop [] x = Inr x"
| "c_token_hex_loop (c # cs) x =
     (let digit =
        (if char_to_int (CHR ''0'') \<le> char_to_int c \<and> char_to_int c \<le> char_to_int (CHR ''9'')
           then char_to_int c - char_to_int (CHR ''0'')
         else if char_to_int (CHR ''a'') \<le> char_to_int c \<and> char_to_int c \<le> char_to_int (CHR ''f'')
           then char_to_int c - char_to_int (CHR ''a'')
         else char_to_int c - char_to_int (CHR ''A''))
      in if x > UINT64_MAX div 16 then Inl number_too_large
         else if x * 16 > UINT64_MAX - word_of_int digit then Inl number_too_large
         else c_token_hex_loop cs (x * 16 + word_of_int digit))"

fun c_token_oct_loop :: "char list \<Rightarrow> 64 word \<Rightarrow> drgn_error + 64 word" where
  "c_token_oct_loop [] x = Inr x"
| "c_token_oct_loop (c # cs) x =
     (let digit = char_to_int c - char_to_int (CHR ''0'')
      in if x > UINT64_MAX div 8 then Inl number_too_large
         else if x * 8 > UINT64_MAX - word_of_int digit then Inl number_too_large
         else c_token_oct_loop cs (x * 8 + word_of_int digit))"

fun c_token_dec_loop :: "char list \<Rightarrow> 64 word \<Rightarrow> drgn_error + 64 word" where
  "c_token_dec_loop [] x = Inr x"
| "c_token_dec_loop (c # cs) x =
     (let digit = char_to_int c - char_to_int (CHR ''0'')
      in if x > UINT64_MAX div 10 then Inl number_too_large
         else if x * 10 > UINT64_MAX - word_of_int digit then Inl number_too_large
         else c_token_dec_loop cs (x * 10 + word_of_int digit))"

text \<open>
  \<open>token_chars t i\<close> are the characters \<^verbatim>\<open>value[i]\<close>, ..., \<^verbatim>\<open>value[len - 1]\<close> that a loop
  starting at \<open>i\<close> reads. The result is \<open>None\<close> where \<^verbatim>\<open>assert(token->kind ==
  C_TOKEN_NUMBER)\<close> aborts.
\<close>

definition token_chars :: "drgn_token \<Rightarrow> nat \<Rightarrow> char list" where
  "token_chars t i = map (c_at (tok_value t)) [i ..< tok_len t]"

definition c_token_to_u64 :: "drgn_token \<Rightarrow> (drgn_error + 64 word) option" where
  "c_token_to_u64 t =
     (if tok_kind t \<noteq> C_TOKEN_NUMBER then None
      else if tok_len t > 2 \<and> c_at (tok_value t) 0 = CHR ''0'' \<and> c_at (tok_value t) 1 = CHR ''x''
        then Some (c_token_hex_loop (token_chars t 2) 0)
      else if c_at (tok_value t) 0 = CHR ''0''
        then Some (c_token_oct_loop (token_chars t 1) 0)
      else Some (c_token_dec_loop (token_chars t 0) 0))"

section \<open>language_c.c: character escapes\<close>

text \<open>
  The string builder is the text built so far. \<^verbatim>\<open>string_builder_append\<close>,
  \<^verbatim>\<open>string_builder_appendc\<close> and \<^verbatim>\<open>string_builder_appendf\<close> live in
  \<^verbatim>\<open>string_builder.c\<close>; they extend the text, or fail when the buffer cannot grow, which
  \<open>grow_ok\<close> decides. \<open>format_02x\<close> is what \<^verbatim>\<open>%02x\<close> prints for an
  \<^verbatim>\<open>unsigned char\<close>: two lower-case hexadecimal digits.
\<close>

definition string_builder_append :: "bool \<Rightarrow> string \<Rightarrow> string \<Rightarrow> drgn_error + string" where
  "string_builder_append grow_ok sb s = (if grow_ok then Inr (sb @ s) else Inl drgn_enomem)"

definition string_builder_appendc :: "bool \<Rightarrow> string \<Rightarrow> char \<Rightarrow> drgn_error + string" where
  "string_builder_appendc grow_ok sb c = (if grow_ok then Inr (sb @ [c]) else Inl drgn_enomem)"

definition hex_digit :: "nat \<Rightarrow> char" where
  "hex_digit n = (if n < 10 then char_of (48 + n) else char_of (87 + n))"

definition format_02x :: "8 word \<Rightarrow> string" where
  "format_02x c = [hex_digit (unat c div 16), hex_digit (unat c mod 16)]"

definition c_pretty_print_character :: "bool \<Rightarrow> 8 word \<Rightarrow> string \<Rightarrow> drgn_error + string" where
  "c_pretty_print_character grow_ok c sb =
     (if c = 7 then string_builder_append grow_ok sb [CHR 0x5C, CHR ''a'']
      else if c = 8 then string_builder_append grow_ok sb [CHR 0x5C, CHR ''b'']
      else if c = 9 then string_builder_append grow_ok sb [CHR 0x5C, CHR ''t'']
      else if c = 10 then string_builder_append grow_ok sb [CHR 0x5C, CHR ''n'']
      else if c = 11 then string_builder_append grow_ok sb [CHR 0x5C, CHR ''v'']
      else if c = 12 then string_builder_append grow_ok sb [CHR 0x5C, CHR ''f'']
      else if c = 13 then string_builder_append grow_ok sb [CHR 0x5C, CHR ''r'']
      else if c = 0x22 then string_builder_append grow_ok sb [CHR 0x5C, CHR 0x22]
      else if c = 0x5C then string_builder_append grow_ok sb [CHR 0x5C, CHR 0x5C]
      else if c \<le> 0x1F \<or> c \<ge> 0x7F
        then string_builder_append grow_ok sb ([CHR 0x5C, CHR ''x''] @ format_02x c)
      else string_builder_appendc grow_ok sb (char_of (unat c)))"

section \<open>Types (drgn.h)\<close>

text \<open>
  \<^verbatim>\<open>enum drgn_type_kind\<close> and \<^verbatim>\<open>enum drgn_primitive_type\<close>. The primitive types are
  numbers, as the code compares them, adds one to them and indexes arrays with them.
  A type descriptor holds the fields that the accessors used here read; an accessor is
  \<open>None\<close> where its \<^verbatim>\<open>assert\<close> on the kind aborts. In the functions built on them
  \<open>None\<close> is such an abort, or a read outside an array. \<open>t_type = None\<close> is the
  \<^verbatim>\<open>NULL\<close> wrapped type of an incomplete enumerated type.
\<close>

datatype drgn_type_kind =
    DRGN_TYPE_VOID
  | DRGN_TYPE_INT
  | DRGN_TYPE_BOOL
  | DRGN_TYPE_FLOAT
  | DRGN_TYPE_COMPLEX
  | DRGN_TYPE_STRUCT
  | DRGN_TYPE_UNION
  | DRGN_TYPE_ENUM
  | DRGN_TYPE_TYPEDEF
  | DRGN_TYPE_POINTER
  | DRGN_TYPE_ARRAY
  | DRGN_TYPE_FUNCTION

definition DRGN_C_TYPE_VOID :: nat where "DRGN_C_TYPE_VOID = 0"
definition DRGN_C_TYPE_CHAR :: nat where "DRGN_C_TYPE_CHAR = 1"
definition DRGN_C_TYPE_SIGNED_CHAR :: nat where "DRGN_C_TYPE_SIGNED_CHAR = 2"
definition DRGN_C_TYPE_UNSIGNED_CHAR :: nat where "DRGN_C_TYPE_UNSIGNED_CHAR = 3"
definition DRGN_C_TYPE_SHORT :: nat where "DRGN_C_TYPE_SHORT = 4"
definition DRGN_C_TYPE_UNSIGNED_SHORT :: nat where "DRGN_C_TYPE_UNSIGNED_SHORT = 5"
definition DRGN_C_TYPE_INT :: nat where "DRGN_C_TYPE_INT = 6"
definition DRGN_C_TYPE_UNSIGNED_INT :: nat where "DRGN_C_TYPE_UNSIGNED_INT = 7"
definition DRGN_C_TYPE_LONG :: nat where "DRGN_C_TYPE_LONG = 8"
definition DRGN_C_TYPE_UNSIGNED_LONG :: nat where "DRGN_C_TYPE_UNSIGNED_LONG = 9"
definition DRGN_C_TYPE_LONG_LONG :: nat where "DRGN_C_TYPE_LONG_LONG = 10"
definition DRGN_C_TYPE_UNSIGNED_LONG_LONG :: nat where "DRGN_C_TYPE_UNSIGNED_LONG_LONG = 11"
definition DRGN_C_TYPE_BOOL :: nat where "DRGN_C_TYPE_BOOL = 12"
definition DRGN_C_TYPE_FLOAT :: nat where "DRGN_C_TYPE_FLOAT = 13"
definition DRGN_C_TYPE_DOUBLE :: nat where "DRGN_C_TYPE_DOUBLE = 14"
definition DRGN_C_TYPE_LONG_DOUBLE :: nat where "DRGN_C_TYPE_LONG_DOUBLE = 15"
definition DRGN_C_TYPE_SIZE_T :: nat where "DRGN_C_TYPE_SIZE_T = 16"
definition DRGN_C_TYPE_PTRDIFF_T :: nat where "DRGN_C_TYPE_PTRDIFF_T = 17"

datatype drgn_type =
  Drgn_type (t_kind: drgn_type_kind) (t_primitive: nat) (t_name: string)
    (t_size: "64 word") (t_is_signed: bool) (t_type: "drgn_type option")

definition drgn_type_kind :: "drgn_type \<Rightarrow> drgn_type_kind" where
  "drgn_type_kind t = t_kind t"







text \<open>
  \<^verbatim>\<open>struct drgn_qualified_type\<close>, \<^verbatim>\<open>struct drgn_object_type\<close> and the part of the type
  index that the C front end reads: the array \<^verbatim>\<open>primitive_types\<close>
  (\<^verbatim>\<open>DRGN_PRIMITIVE_TYPE_NUM\<close> entries; \<open>primitive_type\<close> is \<open>None\<close> past its end) and
  \<^verbatim>\<open>drgn_type_index_find_internal\<close>, which lives in \<^verbatim>\<open>type_index.c\<close> and is a field
  here: given the kind, the name and the file name it returns a qualified type or an error.
\<close>

record drgn_qualified_type =
  qt_type :: drgn_type
  qt_qualifiers :: "8 word"


record drgn_type_index =
  primitive_types :: "nat \<Rightarrow> drgn_type"
  find_internal :: "drgn_type_kind \<Rightarrow> string \<Rightarrow> string option \<Rightarrow> drgn_error + drgn_qualified_type"


section \<open>language_c.c: the usual arithmetic conversions\<close>











section \<open>language_c.c: specifier-qualifier lists\<close>

datatype c_type_specifier =
    SPECIFIER_ERROR
  | SPECIFIER_VOID
  | SPECIFIER_CHAR
  | SPECIFIER_SIGNED_CHAR
  | SPECIFIER_UNSIGNED_CHAR
  | SPECIFIER_SHORT
  | SPECIFIER_SHORT_INT
  | SPECIFIER_SIGNED_SHORT_INT
  | SPECIFIER_UNSIGNED_SHORT_INT
  | SPECIFIER_SIGNED_SHORT
  | SPECIFIER_UNSIGNED_SHORT
  | SPECIFIER_INT
  | SPECIFIER_SIGNED_INT
  | SPECIFIER_UNSIGNED_INT
  | SPECIFIER_LONG
  | SPECIFIER_LONG_INT
  | SPECIFIER_SIGNED_LONG
  | SPECIFIER_UNSIGNED_LONG
  | SPECIFIER_SIGNED_LONG_INT
  | SPECIFIER_UNSIGNED_LONG_INT
  | SPECIFIER_LONG_LONG
  | SPECIFIER_LONG_LONG_INT
  | SPECIFIER_SIGNED_LONG_LONG_INT
  | SPECIFIER_UNSIGNED_LONG_LONG_INT
  | SPECIFIER_SIGNED_LONG_LONG
  | SPECIFIER_UNSIGNED_LONG_LONG
  | SPECIFIER_SIGNED
  | SPECIFIER_UNSIGNED
  | SPECIFIER_BOOL
  | SPECIFIER_FLOAT
  | SPECIFIER_DOUBLE
  | SPECIFIER_LONG_DOUBLE
  | SPECIFIER_NONE

text \<open>
  The ranges \<^verbatim>\<open>MIN_SPECIFIER_TOKEN..MAX_SPECIFIER_TOKEN\<close> (\<^verbatim>\<open>void\<close> to \<^verbatim>\<open>_Complex\<close>)
  and \<^verbatim>\<open>MIN_QUALIFIER_TOKEN..MAX_QUALIFIER_TOKEN\<close> (\<^verbatim>\<open>const\<close> to \<^verbatim>\<open>_Atomic\<close>) of
  the token enumeration.
\<close>

definition is_specifier_token :: "c_token_kind \<Rightarrow> bool" where
  "is_specifier_token k \<longleftrightarrow>
     k \<in> {C_TOKEN_VOID, C_TOKEN_CHAR, C_TOKEN_SHORT, C_TOKEN_INT, C_TOKEN_LONG, C_TOKEN_SIGNED,
          C_TOKEN_UNSIGNED, C_TOKEN_BOOL, C_TOKEN_FLOAT, C_TOKEN_DOUBLE, C_TOKEN_COMPLEX}"

definition is_qualifier_token :: "c_token_kind \<Rightarrow> bool" where
  "is_qualifier_token k \<longleftrightarrow>
     k \<in> {C_TOKEN_CONST, C_TOKEN_RESTRICT, C_TOKEN_VOLATILE, C_TOKEN_ATOMIC}"

definition qualifier_from_token :: "c_token_kind \<Rightarrow> 8 word" where
  "qualifier_from_token k =
     (case k of
        C_TOKEN_CONST \<Rightarrow> 1
      | C_TOKEN_VOLATILE \<Rightarrow> 2
      | C_TOKEN_RESTRICT \<Rightarrow> 4
      | C_TOKEN_ATOMIC \<Rightarrow> 8
      | _ \<Rightarrow> 0)"

text \<open>
  \<^verbatim>\<open>specifier_transition\<close>: the rows of the table, every entry that is not designated
  being \<^verbatim>\<open>SPECIFIER_ERROR\<close> (zero).
\<close>

definition specifier_transition :: "c_type_specifier \<Rightarrow> c_token_kind \<Rightarrow> c_type_specifier" where
  "specifier_transition s k =
     (case s of
        SPECIFIER_NONE \<Rightarrow>
          (case k of
             C_TOKEN_VOID \<Rightarrow> SPECIFIER_VOID
           | C_TOKEN_CHAR \<Rightarrow> SPECIFIER_CHAR
           | C_TOKEN_SHORT \<Rightarrow> SPECIFIER_SHORT
           | C_TOKEN_INT \<Rightarrow> SPECIFIER_INT
           | C_TOKEN_LONG \<Rightarrow> SPECIFIER_LONG
           | C_TOKEN_SIGNED \<Rightarrow> SPECIFIER_SIGNED
           | C_TOKEN_UNSIGNED \<Rightarrow> SPECIFIER_UNSIGNED
           | C_TOKEN_BOOL \<Rightarrow> SPECIFIER_BOOL
           | C_TOKEN_FLOAT \<Rightarrow> SPECIFIER_FLOAT
           | C_TOKEN_DOUBLE \<Rightarrow> SPECIFIER_DOUBLE
           | _ \<Rightarrow> SPECIFIER_ERROR)
      | SPECIFIER_CHAR \<Rightarrow>
          (case k of
             C_TOKEN_SIGNED \<Rightarrow> SPECIFIER_SIGNED_CHAR
           | C_TOKEN_UNSIGNED \<Rightarrow> SPECIFIER_UNSIGNED_CHAR
           | _ \<Rightarrow> SPECIFIER_ERROR)
      | SPECIFIER_SHORT \<Rightarrow>
          (case k of
             C_TOKEN_INT \<Rightarrow> SPECIFIER_SHORT_INT
           | C_TOKEN_SIGNED \<Rightarrow> SPECIFIER_SIGNED_SHORT
           | C_TOKEN_UNSIGNED \<Rightarrow> SPECIFIER_UNSIGNED_SHORT
           | _ \<Rightarrow> SPECIFIER_ERROR)
      | SPECIFIER_SHORT_INT \<Rightarrow>
          (case k of
             C_TOKEN_SIGNED \<Rightarrow> SPECIFIER_SIGNED_SHORT_INT
           | C_TOKEN_UNSIGNED \<Rightarrow> SPECIFIER_UNSIGNED_SHORT_INT
           | _ \<Rightarrow> SPECIFIER_ERROR)
      | SPECIFIER_SIGNED_SHORT \<Rightarrow>
          (case k of C_TOKEN_INT \<Rightarrow> SPECIFIER_SIGNED_SHORT_INT | _ \<Rightarrow> SPECIFIER_ERROR)
      | SPECIFIER_UNSIGNED_SHORT \<Rightarrow>
          (case k of C_TOKEN_INT \<Rightarrow> SPECIFIER_UNSIGNED_SHORT_INT | _ \<Rightarrow> SPECIFIER_ERROR)
      | SPECIFIER_INT \<Rightarrow>
          (case k of
             C_TOKEN_SHORT \<Rightarrow> SPECIFIER_SHORT_INT
           | C_TOKEN_LONG \<Rightarrow> SPECIFIER_LONG_INT
           | C_TOKEN_SIGNED \<Rightarrow> SPECIFIER_SIGNED_INT
           | C_TOKEN_UNSIGNED \<Rightarrow> SPECIFIER_UNSIGNED_INT
           | _ \<Rightarrow> SPECIFIER_ERROR)
      | SPECIFIER_SIGNED_INT \<Rightarrow>
          (case k of
             C_TOKEN_SHORT \<Rightarrow> SPECIFIER_SIGNED_SHORT_INT
           | C_TOKEN_LONG \<Rightarrow> SPECIFIER_SIGNED_LONG_INT
           | _ \<Rightarrow> SPECIFIER_ERROR)
      | SPECIFIER_UNSIGNED_INT \<Rightarrow>
          (case k of
             C_TOKEN_SHORT \<Rightarrow> SPECIFIER_UNSIGNED_SHORT_INT
           | C_TOKEN_LONG \<Rightarrow> SPECIFIER_UNSIGNED_LONG_INT
           | _ \<Rightarrow> SPECIFIER_ERROR)
      | SPECIFIER_LONG \<Rightarrow>
          (case k of
             C_TOKEN_INT \<Rightarrow> SPECIFIER_LONG_INT
           | C_TOKEN_LONG \<Rightarrow> SPECIFIER_LONG_LONG
           | C_TOKEN_SIGNED \<Rightarrow> SPECIFIER_SIGNED_LONG
           | C_TOKEN_UNSIGNED \<Rightarrow> SPECIFIER_UNSIGNED_LONG
           | C_TOKEN_DOUBLE \<Rightarrow> SPECIFIER_LONG_DOUBLE
           | _ \<Rightarrow> SPECIFIER_ERROR)
      | SPECIFIER_LONG_INT \<Rightarrow>
          (case k of
             C_TOKEN_LONG \<Rightarrow> SPECIFIER_LONG_LONG_INT
           | C_TOKEN_SIGNED \<Rightarrow> SPECIFIER_SIGNED_LONG_INT
           | C_TOKEN_UNSIGNED \<Rightarrow> SPECIFIER_UNSIGNED_LONG_INT
           | _ \<Rightarrow> SPECIFIER_ERROR)
      | SPECIFIER_SIGNED_LONG \<Rightarrow>
          (case k of
             C_TOKEN_LONG \<Rightarrow> SPECIFIER_SIGNED_LONG_LONG
           | C_TOKEN_INT \<Rightarrow> SPECIFIER_SIGNED_LONG_INT
           | _ \<Rightarrow> SPECIFIER_ERROR)
      | SPECIFIER_UNSIGNED_LONG \<Rightarrow>
          (case k of
             C_TOKEN_LONG \<Rightarrow> SPECIFIER_UNSIGNED_LONG_LONG
           | C_TOKEN_INT \<Rightarrow> SPECIFIER_UNSIGNED_LONG_INT
           | _ \<Rightarrow> SPECIFIER_ERROR)
      | SPECIFIER_SIGNED_LONG_INT \<Rightarrow>
          (case k of C_TOKEN_LONG \<Rightarrow> SPECIFIER_SIGNED_LONG_LONG_INT | _ \<Rightarrow> SPECIFIER_ERROR)
      | SPECIFIER_UNSIGNED_LONG_INT \<Rightarrow>
          (case k of C_TOKEN_LONG \<Rightarrow> SPECIFIER_UNSIGNED_LONG_LONG_INT | _ \<Rightarrow> SPECIFIER_ERROR)
      | SPECIFIER_LONG_LONG \<Rightarrow>
          (case k of
             C_TOKEN_INT \<Rightarrow> SPECIFIER_LONG_LONG_INT
           | C_TOKEN_SIGNED \<Rightarrow> SPECIFIER_SIGNED_LONG_LONG
           | C_TOKEN_UNSIGNED \<Rightarrow> SPECIFIER_UNSIGNED_LONG_LONG
           | _ \<Rightarrow> SPECIFIER_ERROR)
      | SPECIFIER_LONG_LONG_INT \<Rightarrow>
          (case k of
             C_TOKEN_SIGNED \<Rightarrow> SPECIFIER_SIGNED_LONG_LONG_INT
           | C_TOKEN_UNSIGNED \<Rightarrow> SPECIFIER_UNSIGNED_LONG_LONG_INT
           | _ \<Rightarrow> SPECIFIER_ERROR)
      | SPECIFIER_SIGNED_LONG_LONG \<Rightarrow>
          (case k of C_TOKEN_INT \<Rightarrow> SPECIFIER_SIGNED_LONG_LONG_INT | _ \<Rightarrow> SPECIFIER_ERROR)
      | SPECIFIER_UNSIGNED_LONG_LONG \<Rightarrow>
          (case k of C_TOKEN_INT \<Rightarrow> SPECIFIER_UNSIGNED_LONG_LONG_INT | _ \<Rightarrow> SPECIFIER_ERROR)
      | SPECIFIER_SIGNED \<Rightarrow>
          (case k of
             C_TOKEN_CHAR \<Rightarrow> SPECIFIER_SIGNED_CHAR
           | C_TOKEN_SHORT \<Rightarrow> SPECIFIER_SIGNED_SHORT
           | C_TOKEN_INT \<Rightarrow> SPECIFIER_SIGNED_INT
           | C_TOKEN_LONG \<Rightarrow> SPECIFIER_SIGNED_LONG
           | _ \<Rightarrow> SPECIFIER_ERROR)
      | SPECIFIER_UNSIGNED \<Rightarrow>
          (case k of
             C_TOKEN_CHAR \<Rightarrow> SPECIFIER_UNSIGNED_CHAR
           | C_TOKEN_SHORT \<Rightarrow> SPECIFIER_UNSIGNED_SHORT
           | C_TOKEN_INT \<Rightarrow> SPECIFIER_UNSIGNED_INT
           | C_TOKEN_LONG \<Rightarrow> SPECIFIER_UNSIGNED_LONG
           | _ \<Rightarrow> SPECIFIER_ERROR)
      | SPECIFIER_DOUBLE \<Rightarrow>
          (case k of C_TOKEN_LONG \<Rightarrow> SPECIFIER_LONG_DOUBLE | _ \<Rightarrow> SPECIFIER_ERROR)
      | _ \<Rightarrow> SPECIFIER_ERROR)"

text \<open>
  \<^verbatim>\<open>specifier_kind\<close>; the entries for \<^verbatim>\<open>SPECIFIER_ERROR\<close> and \<^verbatim>\<open>SPECIFIER_NONE\<close> are
  not designated, so they are zero, \<^verbatim>\<open>DRGN_C_TYPE_VOID\<close>.
\<close>

definition specifier_kind :: "c_type_specifier \<Rightarrow> nat" where
  "specifier_kind s =
     (case s of
        SPECIFIER_VOID \<Rightarrow> DRGN_C_TYPE_VOID
      | SPECIFIER_CHAR \<Rightarrow> DRGN_C_TYPE_CHAR
      | SPECIFIER_SIGNED_CHAR \<Rightarrow> DRGN_C_TYPE_SIGNED_CHAR
      | SPECIFIER_UNSIGNED_CHAR \<Rightarrow> DRGN_C_TYPE_UNSIGNED_CHAR
      | SPECIFIER_SHORT \<Rightarrow> DRGN_C_TYPE_SHORT
      | SPECIFIER_SHORT_INT \<Rightarrow> DRGN_C_TYPE_SHORT
      | SPECIFIER_SIGNED_SHORT_INT \<Rightarrow> DRGN_C_TYPE_SHORT
      | SPECIFIER_UNSIGNED_SHORT_INT \<Rightarrow> DRGN_C_TYPE_UNSIGNED_SHORT
      | SPECIFIER_SIGNED_SHORT \<Rightarrow> DRGN_C_TYPE_SHORT
      | SPECIFIER_UNSIGNED_SHORT \<Rightarrow> DRGN_C_TYPE_UNSIGNED_SHORT
      | SPECIFIER_INT \<Rightarrow> DRGN_C_TYPE_INT
      | SPECIFIER_SIGNED_INT \<Rightarrow> DRGN_C_TYPE_INT
      | SPECIFIER_UNSIGNED_INT \<Rightarrow> DRGN_C_TYPE_UNSIGNED_INT
      | SPECIFIER_LONG \<Rightarrow> DRGN_C_TYPE_LONG
      | SPECIFIER_LONG_INT \<Rightarrow> DRGN_C_TYPE_LONG
      | SPECIFIER_SIGNED_LONG \<Rightarrow> DRGN_C_TYPE_LONG
      | SPECIFIER_UNSIGNED_LONG \<Rightarrow> DRGN_C_TYPE_UNSIGNED_LONG
      | SPECIFIER_SIGNED_LONG_INT \<Rightarrow> DRGN_C_TYPE_LONG
      | SPECIFIER_UNSIGNED_LONG_INT \<Rightarrow> DRGN_C_TYPE_UNSIGNED_LONG
      | SPECIFIER_LONG_LONG \<Rightarrow> DRGN_C_TYPE_LONG_LONG
      | SPECIFIER_LONG_LONG_INT \<Rightarrow> DRGN_C_TYPE_LONG_LONG
      | SPECIFIER_SIGNED_LONG_LONG_INT \<Rightarrow> DRGN_C_TYPE_LONG_LONG
      | SPECIFIER_UNSIGNED_LONG_LONG_INT \<Rightarrow> DRGN_C_TYPE_UNSIGNED_LONG_LONG
      | SPECIFIER_SIGNED_LONG_LONG \<Rightarrow> DRGN_C_TYPE_LONG_LONG
      | SPECIFIER_UNSIGNED_LONG_LONG \<Rightarrow> DRGN_C_TYPE_UNSIGNED_LONG_LONG
      | SPECIFIER_SIGNED \<Rightarrow> DRGN_C_TYPE_INT
      | SPECIFIER_UNSIGNED \<Rightarrow> DRGN_C_TYPE_UNSIGNED_INT
      | SPECIFIER_BOOL \<Rightarrow> DRGN_C_TYPE_BOOL
      | SPECIFIER_FLOAT \<Rightarrow> DRGN_C_TYPE_FLOAT
      | SPECIFIER_DOUBLE \<Rightarrow> DRGN_C_TYPE_DOUBLE
      | SPECIFIER_LONG_DOUBLE \<Rightarrow> DRGN_C_TYPE_LONG_DOUBLE
      | _ \<Rightarrow> DRGN_C_TYPE_VOID)"

text \<open>
  The lexer (\<^verbatim>\<open>lexer.c\<close>) is the list of the results that \<^verbatim>\<open>drgn_lexer_pop\<close> will return,
  a token or an error each; past the end of the input it returns the end-of-file token.
  \<^verbatim>\<open>drgn_lexer_push\<close> puts a token back, and fails when its stack cannot grow, which
  \<open>push_ok\<close> decides.

  The variables of \<^verbatim>\<open>c_parse_specifier_qualifier_list\<close> are a record. \<open>sq_identifier\<close>
  is the pair \<^verbatim>\<open>(identifier, identifier_len)\<close>, \<open>None\<close> for \<^verbatim>\<open>NULL\<close>; the pointer is
  into the input, so its text runs to the end of the input.
\<close>

type_synonym drgn_lexer = "(drgn_error + drgn_token) list"

definition eof_token :: drgn_token where
  "eof_token = \<lparr>tok_kind = C_TOKEN_EOF, tok_value = [], tok_len = 0\<rparr>"

record sq_state =
  sq_specifier :: c_type_specifier
  sq_qualifiers :: "8 word"
  sq_identifier :: "(string \<times> nat) option"
  sq_tag_token :: c_token_kind

definition sq_init :: sq_state where
  "sq_init = \<lparr>sq_specifier = SPECIFIER_NONE, sq_qualifiers = 0, sq_identifier = None,
              sq_tag_token = C_TOKEN_EOF\<rparr>"

definition syntax_error :: "string \<Rightarrow> drgn_error" where
  "syntax_error fmt = drgn_error_format DRGN_ERROR_SYNTAX fmt"

text \<open>
  The loop. The end-of-file token is no qualifier, specifier, identifier or tag, so it is
  pushed back and ends the loop, which is the first equation.
\<close>

fun sq_loop :: "bool \<Rightarrow> drgn_lexer \<Rightarrow> sq_state \<Rightarrow> drgn_error + (sq_state \<times> drgn_lexer)" where
  "sq_loop push_ok [] st = (if push_ok then Inr (st, [Inr eof_token]) else Inl drgn_enomem)"
| "sq_loop push_ok (Inl err # lexer) st = Inl err"
| "sq_loop push_ok (Inr token # lexer) st =
     (if is_qualifier_token (tok_kind token) then
        sq_loop push_ok lexer
          (st\<lparr>sq_qualifiers := sq_qualifiers st OR qualifier_from_token (tok_kind token)\<rparr>)
      else if is_specifier_token (tok_kind token) then
        (if sq_tag_token st \<noteq> C_TOKEN_EOF then Inl (syntax_error ''cannot combine %s with %s'')
         else if sq_identifier st \<noteq> None then
           Inl (syntax_error ''cannot combine %s with identifier'')
         else if specifier_transition (sq_specifier st) (tok_kind token) = SPECIFIER_ERROR then
           Inl (syntax_error ''cannot combine %s with %s'')
         else
           sq_loop push_ok lexer
             (st\<lparr>sq_specifier := specifier_transition (sq_specifier st) (tok_kind token)\<rparr>))
      else if tok_kind token = C_TOKEN_IDENTIFIER \<and> sq_specifier st = SPECIFIER_NONE \<and>
              sq_identifier st = None then
        sq_loop push_ok lexer (st\<lparr>sq_identifier := Some (tok_value token, tok_len token)\<rparr>)
      else if tok_kind token = C_TOKEN_STRUCT \<or> tok_kind token = C_TOKEN_UNION \<or>
              tok_kind token = C_TOKEN_ENUM then
        (if sq_identifier st \<noteq> None then
           Inl (syntax_error ''cannot combine %s with identifier'')
         else if sq_specifier st \<noteq> SPECIFIER_NONE then
           Inl (syntax_error ''cannot combine %s with %s'')
         else
           (case lexer of
              [] \<Rightarrow> Inl (syntax_error ''expected identifier after %s'')
            | Inl err # lexer' \<Rightarrow> Inl err
            | Inr token' # lexer' \<Rightarrow>
                if tok_kind token' \<noteq> C_TOKEN_IDENTIFIER then
                  Inl (syntax_error ''expected identifier after %s'')
                else
                  sq_loop push_ok lexer'
                    (st\<lparr>sq_tag_token := tok_kind token,
                        sq_identifier := Some (tok_value token', tok_len token')\<rparr>)))
      else if push_ok then Inr (st, Inr token # lexer)
      else Inl drgn_enomem)"

text \<open>
  \<^verbatim>\<open>strncmp(s, lit, strlen(lit)) == 0\<close> for a literal without a nul: the first
  \<open>length lit\<close> characters of \<open>s\<close> are those of \<open>lit\<close>.
\<close>

definition strncmp_eq :: "string \<Rightarrow> string \<Rightarrow> bool" where
  "strncmp_eq s lit \<longleftrightarrow> take (length lit) s = lit"

text \<open>
  The part of \<^verbatim>\<open>c_parse_specifier_qualifier_list\<close> after the loop. The name handed to
  \<^verbatim>\<open>drgn_type_index_find_internal\<close> is the first \<^verbatim>\<open>identifier_len\<close> characters at
  \<^verbatim>\<open>identifier\<close>. A tag with no identifier cannot leave the loop; \<^verbatim>\<open>identifier\<close> would
  be \<^verbatim>\<open>NULL\<close> there, which is \<open>None\<close>.
\<close>

definition sq_lookup ::
  "drgn_type_index \<Rightarrow> string option \<Rightarrow> drgn_type_kind \<Rightarrow> (string \<times> nat) option \<Rightarrow>
   (drgn_error + drgn_qualified_type) option" where
  "sq_lookup tindex filename kind ident =
     (case ident of
        None \<Rightarrow> None
      | Some (identifier, identifier_len) \<Rightarrow>
          Some (find_internal tindex kind (take identifier_len identifier) filename))"

definition sq_resolve ::
  "drgn_type_index \<Rightarrow> string option \<Rightarrow> sq_state \<Rightarrow> (drgn_error + drgn_qualified_type) option"
  where
  "sq_resolve tindex filename st =
     (if sq_specifier st = SPECIFIER_NONE then
        (if sq_tag_token st = C_TOKEN_STRUCT then
           sq_lookup tindex filename DRGN_TYPE_STRUCT (sq_identifier st)
         else if sq_tag_token st = C_TOKEN_UNION then
           sq_lookup tindex filename DRGN_TYPE_UNION (sq_identifier st)
         else if sq_tag_token st = C_TOKEN_ENUM then
           sq_lookup tindex filename DRGN_TYPE_ENUM (sq_identifier st)
         else
           (case sq_identifier st of
              Some (identifier, identifier_len) \<Rightarrow>
                if strncmp_eq identifier ''size_t'' then
                  Some (Inr \<lparr>qt_type = primitive_types tindex DRGN_C_TYPE_SIZE_T,
                             qt_qualifiers = 0\<rparr>)
                else if strncmp_eq identifier ''ptrdiff_t'' then
                  Some (Inr \<lparr>qt_type = primitive_types tindex DRGN_C_TYPE_PTRDIFF_T,
                             qt_qualifiers = 0\<rparr>)
                else sq_lookup tindex filename DRGN_TYPE_TYPEDEF (sq_identifier st)
            | None \<Rightarrow> Some (Inl (drgn_error_create DRGN_ERROR_SYNTAX ''expected type specifier''))))
      else
        Some (Inr \<lparr>qt_type = primitive_types tindex (specifier_kind (sq_specifier st)),
                   qt_qualifiers = 0\<rparr>))"

text \<open>
  The whole function: the loop, the resolution, and \<^verbatim>\<open>ret->qualifiers |= qualifiers\<close>
  on success. It returns the qualified type with the lexer after the list.
\<close>

definition c_parse_specifier_qualifier_list ::
  "bool \<Rightarrow> drgn_type_index \<Rightarrow> drgn_lexer \<Rightarrow> string option \<Rightarrow>
   (drgn_error + (drgn_qualified_type \<times> drgn_lexer)) option" where
  "c_parse_specifier_qualifier_list push_ok tindex lexer filename =
     (case sq_loop push_ok lexer sq_init of
        Inl err \<Rightarrow> Some (Inl err)
      | Inr (st, lexer') \<Rightarrow>
          (case sq_resolve tindex filename st of
             None \<Rightarrow> None
           | Some (Inl err) \<Rightarrow> Some (Inl err)
           | Some (Inr ret) \<Rightarrow>
               Some (Inr (ret\<lparr>qt_qualifiers := qt_qualifiers ret OR sq_qualifiers st\<rparr>, lexer'))))"





section \<open>dwarf_index.c: relocations\<close>

text \<open>
  \<^verbatim>\<open>Elf64_Rela\<close> and \<^verbatim>\<open>Elf64_Sym\<close> (of the symbol only \<^verbatim>\<open>st_value\<close> is read), and the
  relocation types of \<^verbatim>\<open>elf.h\<close>. A section is its buffer, \<^verbatim>\<open>d_size\<close> bytes; the symbol
  table is its array of symbols, \<^verbatim>\<open>d_size / sizeof(Elf64_Sym)\<close> of them.

  A store through \<^verbatim>\<open>(uint32_t *)p\<close> or \<^verbatim>\<open>(uint64_t *)p\<close> writes the bytes of the word
  in the byte order of the host, \<open>le\<close> for little-endian (\<open>le_bytes n w\<close> are the \<open>n\<close>
  low bytes of \<open>w\<close>, lowest first, and \<open>le_word\<close> is the word of such bytes);
  \<open>load_u32\<close> and \<open>load_u64\<close> read a word back.
\<close>

record Elf64_Rela =
  r_offset :: "64 word"
  r_info :: "64 word"
  r_addend :: "64 word"

record Elf64_Sym =
  st_value :: "64 word"

definition R_X86_64_NONE :: "32 word" where "R_X86_64_NONE = 0"
definition R_X86_64_64 :: "32 word" where "R_X86_64_64 = 1"
definition R_X86_64_32 :: "32 word" where "R_X86_64_32 = 10"

definition le_bytes :: "nat \<Rightarrow> 'a::len word \<Rightarrow> 8 word list" where
  "le_bytes n w = map (\<lambda>k. ucast (drop_bit (8 * k) w)) [0 ..< n]"

definition word_bytes :: "bool \<Rightarrow> nat \<Rightarrow> 'a::len word \<Rightarrow> 8 word list" where
  "word_bytes le n w = (if le then le_bytes n w else rev (le_bytes n w))"

fun le_word :: "8 word list \<Rightarrow> 'a::len word" where
  "le_word [] = 0"
| "le_word (b # bs) = ucast b OR push_bit 8 (le_word bs)"

definition bytes_word :: "bool \<Rightarrow> 8 word list \<Rightarrow> 'a::len word" where
  "bytes_word le bs = (if le then le_word bs else le_word (rev bs))"

definition store_bytes :: "8 word list \<Rightarrow> nat \<Rightarrow> 8 word list \<Rightarrow> 8 word list" where
  "store_bytes buf off bs = take off buf @ bs @ drop (off + length bs) buf"

definition load_u32 :: "bool \<Rightarrow> 8 word list \<Rightarrow> nat \<Rightarrow> 32 word" where
  "load_u32 le buf off = bytes_word le (take 4 (drop off buf))"

definition load_u64 :: "bool \<Rightarrow> 8 word list \<Rightarrow> nat \<Rightarrow> 64 word" where
  "load_u64 le buf off = bytes_word le (take 8 (drop off buf))"

text \<open>
  The two halves of \<^verbatim>\<open>r_info\<close>: \<^verbatim>\<open>r_info >> 32\<close>, the symbol index, and
  \<^verbatim>\<open>r_info & 0xffffffff\<close>, the relocation type, each a \<^verbatim>\<open>uint32_t\<close>.
\<close>

definition r_sym_of :: "64 word \<Rightarrow> 32 word" where
  "r_sym_of info = ucast (drop_bit 32 info)"

definition r_type_of :: "64 word \<Rightarrow> 32 word" where
  "r_type_of info = ucast (info AND 0xffffffff)"

definition invalid_relocation_symbol :: drgn_error where
  "invalid_relocation_symbol = drgn_error_create DRGN_ERROR_ELF_FORMAT ''invalid relocation symbol''"

definition invalid_relocation_offset :: drgn_error where
  "invalid_relocation_offset = drgn_error_create DRGN_ERROR_ELF_FORMAT ''invalid relocation offset''"

text \<open>
  \<^verbatim>\<open>apply_relocation\<close> returns its error (\<open>None\<close> for \<^verbatim>\<open>NULL\<close>) and the section as it
  leaves it. The outer \<open>None\<close> is a read of \<^verbatim>\<open>rela_section\<close> past its entries, which the
  callers' loop bound excludes.
\<close>

definition apply_relocation ::
  "bool \<Rightarrow> 8 word list \<Rightarrow> Elf64_Rela list \<Rightarrow> Elf64_Sym list \<Rightarrow> nat \<Rightarrow>
   (drgn_error option \<times> 8 word list) option" where
  "apply_relocation le section rela_section symtab i =
     (if i \<ge> length rela_section then None
      else
        let reloc = rela_section ! i;
            num_syms = length symtab;
            r_sym = r_sym_of (r_info reloc);
            r_type = r_type_of (r_info reloc)
        in if r_type = R_X86_64_NONE then Some (None, section)
           else if r_type = R_X86_64_32 then
             (if unat r_sym \<ge> num_syms then Some (Some invalid_relocation_symbol, section)
              else if unat (r_offset reloc) > SIZE_MAX - 4 \<or>
                      unat (r_offset reloc + 4) > length section then
                Some (Some invalid_relocation_offset, section)
              else
                Some (None, store_bytes section (unat (r_offset reloc))
                        (word_bytes le 4
                           (ucast (st_value (symtab ! unat r_sym) + r_addend reloc) :: 32 word))))
           else if r_type = R_X86_64_64 then
             (if unat r_sym \<ge> num_syms then Some (Some invalid_relocation_symbol, section)
              else if unat (r_offset reloc) > SIZE_MAX - 8 \<or>
                      unat (r_offset reloc + 8) > length section then
                Some (Some invalid_relocation_offset, section)
              else
                Some (None, store_bytes section (unat (r_offset reloc))
                        (word_bytes le 8 (st_value (symtab ! unat r_sym) + r_addend reloc))))
           else
             Some (Some (drgn_error_format DRGN_ERROR_ELF_FORMAT
                           ''unimplemented relocation type %u''), section))"

section \<open>dwarf_index.c: the shards\<close>

text \<open>
  An indexed DIE. \<open>de_next\<close> is the index of the next entry with the same name in the
  shard's array, or \<^verbatim>\<open>SIZE_MAX\<close>; \<open>de_file\<close> is the pointer to the debug file, a number
  that names it.

  A shard: its map from names to the index of the first entry of the name, and its array
  of entries. The array is the map from an index to the cell written there; a cell that
  was never written is \<open>None\<close>, and the cells from \<open>sh_num_entries\<close> on are not in use
  but keep what was written to them.
\<close>

record die_entry =
  de_tag :: "64 word"
  de_file_name_hash :: "64 word"
  de_next :: nat
  de_file :: nat
  de_offset :: "64 word"

record dwarf_index_shard =
  sh_map :: "string \<rightharpoonup> nat"
  sh_entries :: "nat \<rightharpoonup> die_entry"
  sh_num_entries :: nat
  sh_entries_capacity :: nat

definition SHARD_BITS :: nat where
  "SHARD_BITS = 8"

definition NUM_SHARDS :: nat where
  "NUM_SHARDS = 2 ^ SHARD_BITS"

text \<open>
  \<^verbatim>\<open>hash_pair_to_shard\<close>, on the first word of the hash pair that \<^verbatim>\<open>die_map_hash\<close>
  (\<^verbatim>\<open>hash_table.h\<close>) computes for a name; that hash function is the parameter \<open>hsh\<close> of
  the functions below.
\<close>

definition hash_pair_to_shard :: "64 word \<Rightarrow> nat" where
  "hash_pair_to_shard hp_first =
     unat (drop_bit (8 * 8 - 8 - SHARD_BITS) hp_first AND (push_bit SHARD_BITS 1 - 1))"

text \<open>
  The shard that \<^verbatim>\<open>drgn_dwarf_index_create\<close> makes: no entry, the initial capacity
  \<^verbatim>\<open>max(1024 >> SHARD_BITS, 1)\<close>.
\<close>

definition empty_shard :: dwarf_index_shard where
  "empty_shard =
     \<lparr>sh_map = Map.empty, sh_entries = Map.empty, sh_num_entries = 0,
      sh_entries_capacity = max (1024 div 2 ^ SHARD_BITS) 1\<rparr>"

text \<open>
  \<^verbatim>\<open>append_die_entry\<close> returns \<open>None\<close> for \<^verbatim>\<open>false\<close>: the array is full and
  \<^verbatim>\<open>resize_array\<close> fails, which \<open>resize_ok\<close> decides.
\<close>

definition append_die_entry ::
  "bool \<Rightarrow> dwarf_index_shard \<Rightarrow> 64 word \<Rightarrow> 64 word \<Rightarrow> nat \<Rightarrow> 64 word \<Rightarrow>
   dwarf_index_shard option" where
  "append_die_entry resize_ok shard tag file_name_hash file offset =
     (if sh_num_entries shard \<ge> sh_entries_capacity shard \<and> \<not> resize_ok then None
      else
        Some (shard
          \<lparr>sh_entries := (sh_entries shard)(sh_num_entries shard \<mapsto>
              \<lparr>de_tag = tag, de_file_name_hash = file_name_hash, de_next = SIZE_MAX,
               de_file = file, de_offset = offset\<rparr>),
           sh_num_entries := sh_num_entries shard + 1,
           sh_entries_capacity :=
             (if sh_num_entries shard \<ge> sh_entries_capacity shard
              then sh_entries_capacity shard * 2 else sh_entries_capacity shard)\<rparr>))"

text \<open>
  The loop of \<^verbatim>\<open>index_die\<close> over the entries of a name, from the entry at \<open>i\<close>: it ends
  at an entry with the tag and the file name hash (\<open>Found\<close>), or at the last entry
  (\<open>Tail\<close>, with its index). It has no result, \<open>None\<close>, where the walk never ends or reads
  a cell that was never written.
\<close>

datatype chain_end = Found | Tail nat

partial_function (option) chain_walk ::
  "(nat \<rightharpoonup> die_entry) \<Rightarrow> 64 word \<Rightarrow> 64 word \<Rightarrow> nat \<Rightarrow> chain_end option" where
  "chain_walk entries tag file_name_hash i =
     (case entries i of
        None \<Rightarrow> None
      | Some entry \<Rightarrow>
          if de_tag entry = tag \<and> de_file_name_hash entry = file_name_hash then Some Found
          else if de_next entry = SIZE_MAX then Some (Tail i)
          else chain_walk entries tag file_name_hash (de_next entry))"

text \<open>
  \<^verbatim>\<open>index_die\<close> on the shard of the name, the lock held. It returns its error (\<open>None\<close> for
  \<^verbatim>\<open>NULL\<close>) and the shard. \<open>insert_ok\<close> decides whether \<^verbatim>\<open>die_map_insert_searched\<close>
  can allocate.
\<close>

definition index_die_shard ::
  "bool \<Rightarrow> bool \<Rightarrow> dwarf_index_shard \<Rightarrow> string \<Rightarrow> 64 word \<Rightarrow> 64 word \<Rightarrow> nat \<Rightarrow> 64 word \<Rightarrow>
   (drgn_error option \<times> dwarf_index_shard) option" where
  "index_die_shard resize_ok insert_ok shard name tag file_name_hash file offset =
     (case sh_map shard name of
        None \<Rightarrow>
          (case append_die_entry resize_ok shard tag file_name_hash file offset of
             None \<Rightarrow> Some (Some drgn_enomem, shard)
           | Some shard' \<Rightarrow>
               if insert_ok then
                 Some (None, shard'\<lparr>sh_map := (sh_map shard')(name \<mapsto> sh_num_entries shard' - 1)\<rparr>)
               else Some (Some drgn_enomem, shard'))
      | Some v \<Rightarrow>
          (case chain_walk (sh_entries shard) tag file_name_hash v of
             None \<Rightarrow> None
           | Some Found \<Rightarrow> Some (None, shard)
           | Some (Tail index) \<Rightarrow>
               (case append_die_entry resize_ok shard tag file_name_hash file offset of
                  None \<Rightarrow> Some (Some drgn_enomem, shard)
                | Some shard' \<Rightarrow>
                    (case sh_entries shard' index of
                       None \<Rightarrow> None
                     | Some entry \<Rightarrow>
                         Some (None, shard'
                           \<lparr>sh_entries := (sh_entries shard')(index \<mapsto>
                              entry\<lparr>de_next := sh_num_entries shard' - 1\<rparr>)\<rparr>)))))"

text \<open>
  The index: its shards, the debug files it has allocated (by their pointer), and the lists
  of the files opened and not yet indexed, and of the files indexed. \<open>df_freed\<close> records
  that \<^verbatim>\<open>free_files\<close> has released the file; the other fields of a file are what the
  steps of an update before the indexing return for it: the error of applying its
  relocations if there is one, its \<^verbatim>\<open>.debug_str\<close> section, and what \<^verbatim>\<open>read_cus\<close>
  returns, its compilation units or an error.

  Of a compilation unit the model keeps what \<^verbatim>\<open>index_cu\<close> gets from the decoding
  functions: the error of \<^verbatim>\<open>read_abbrev_table\<close> if there is one, what \<^verbatim>\<open>read_die\<close> returns
  at a position (an offset into \<^verbatim>\<open>.debug_info\<close>), and what \<^verbatim>\<open>read_file_name_table\<close>
  reads at an offset into \<^verbatim>\<open>.debug_line\<close>, the hashes of the file names or an error.
\<close>

record die =
  die_sibling :: "64 word option"
  die_name :: "string option"
  die_stmt_list :: nat
  die_decl_file :: nat
  die_specification :: "64 word option"
  die_flags :: "8 word"

datatype read_result = RNull "64 word" | RDie die "64 word" | RErr drgn_error

record compilation_unit =
  cu_file :: nat
  cu_ptr :: "64 word"
  cu_is_64_bit :: bool
  cu_abbrev_err :: "drgn_error option"
  cu_die_at :: "64 word \<Rightarrow> read_result"
  cu_file_names :: "nat \<Rightarrow> drgn_error + 64 word list"

record debug_file =
  df_failed :: bool
  df_freed :: bool
  df_reloc_err :: "drgn_error option"
  df_debug_str :: "8 word list"
  df_cus :: "drgn_error + compilation_unit list"

record drgn_dwarf_index =
  di_shards :: "nat \<Rightarrow> dwarf_index_shard"
  di_files :: "nat \<rightharpoonup> debug_file"
  di_opened :: "nat list"
  di_indexed :: "nat list"

definition index_die ::
  "(string \<Rightarrow> 64 word) \<Rightarrow> bool \<Rightarrow> bool \<Rightarrow> drgn_dwarf_index \<Rightarrow> string \<Rightarrow> 64 word \<Rightarrow> 64 word \<Rightarrow>
   nat \<Rightarrow> 64 word \<Rightarrow> (drgn_error option \<times> drgn_dwarf_index) option" where
  "index_die hsh resize_ok insert_ok dindex name tag file_name_hash file offset =
     (let k = hash_pair_to_shard (hsh name)
      in case index_die_shard resize_ok insert_ok (di_shards dindex k) name tag file_name_hash
                file offset of
           None \<Rightarrow> None
         | Some (err, shard') \<Rightarrow> Some (err, dindex\<lparr>di_shards := (di_shards dindex)(k := shard')\<rparr>))"

text \<open>
  The entries of a name as a lookup by name walks them
  (\<^verbatim>\<open>drgn_dwarf_index_iterator_init\<close>, then \<^verbatim>\<open>drgn_dwarf_index_iterator_next\<close> until it
  stops, with no tag to match): the indices from the one in the map along \<open>de_next\<close> to
  \<^verbatim>\<open>SIZE_MAX\<close>. \<open>None\<close> where the walk never ends or reads a cell never written.
\<close>

partial_function (option) chain_from :: "(nat \<rightharpoonup> die_entry) \<Rightarrow> nat \<Rightarrow> nat list option" where
  "chain_from entries i =
     (if i = SIZE_MAX then Some []
      else case entries i of
             None \<Rightarrow> None
           | Some entry \<Rightarrow>
               Option.bind (chain_from entries (de_next entry)) (\<lambda>rest. Some (i # rest)))"

definition chain_of :: "dwarf_index_shard \<Rightarrow> string \<Rightarrow> nat list option" where
  "chain_of shard name =
     (case sh_map shard name of None \<Rightarrow> Some [] | Some v \<Rightarrow> chain_from (sh_entries shard) v)"

text \<open>
  One call of \<^verbatim>\<open>drgn_dwarf_index_iterator_next\<close> for a lookup by name, up to the entry
  it selects: from the index \<open>i\<close> of the iterator it returns the index of the first entry
  on the chain whose tag matches (any entry when no tag is given) with the iterator's next
  index, or \<^verbatim>\<open>drgn_stop\<close>. It reads \<^verbatim>\<open>entries[i]\<close> whatever \<open>sh_num_entries\<close> is.
\<close>

definition drgn_stop :: drgn_error where
  "drgn_stop = Error DRGN_ERROR_STOP ''stop iteration''"

definition matches_tag :: "64 word list \<Rightarrow> die_entry \<Rightarrow> bool" where
  "matches_tag tags entry \<longleftrightarrow> tags = [] \<or> de_tag entry \<in> set tags"

partial_function (option) iterator_next ::
  "(nat \<rightharpoonup> die_entry) \<Rightarrow> 64 word list \<Rightarrow> nat \<Rightarrow> (drgn_error + nat \<times> nat) option" where
  "iterator_next entries tags i =
     (if i = SIZE_MAX then Some (Inl drgn_stop)
      else case entries i of
             None \<Rightarrow> None
           | Some entry \<Rightarrow>
               if matches_tag tags entry then Some (Inr (i, de_next entry))
               else iterator_next entries tags (de_next entry))"

section \<open>dwarf_index.c: walking a compilation unit\<close>

definition DW_TAG_enumeration_type :: "64 word" where "DW_TAG_enumeration_type = 0x04"
definition DW_TAG_compile_unit :: "64 word" where "DW_TAG_compile_unit = 0x11"
definition DW_TAG_structure_type :: "64 word" where "DW_TAG_structure_type = 0x13"
definition DW_TAG_typedef :: "64 word" where "DW_TAG_typedef = 0x16"
definition DW_TAG_enumerator :: "64 word" where "DW_TAG_enumerator = 0x28"
definition DW_TAG_variable :: "64 word" where "DW_TAG_variable = 0x34"
definition TAG_MASK :: "8 word" where "TAG_MASK = 0x3f"
definition TAG_FLAG_DECLARATION :: "8 word" where "TAG_FLAG_DECLARATION = 0x40"
definition TAG_FLAG_CHILDREN :: "8 word" where "TAG_FLAG_CHILDREN = 0x80"

text \<open>
  The variables of the loop of \<^verbatim>\<open>index_cu\<close>, with the index. \<open>ws_calls\<close> is not in the
  code: it lists the calls of \<^verbatim>\<open>index_die\<close> made so far, each with the depth and the
  offset of the DIE it was made for, next to the name, the tag, the hash and the offset
  passed.
\<close>

record index_call =
  ic_depth :: "32 word"
  ic_die_offset :: "64 word"
  ic_name :: string
  ic_tag :: "64 word"
  ic_file_name_hash :: "64 word"
  ic_offset :: "64 word"

record walk_state =
  ws_ptr :: "64 word"
  ws_depth :: "32 word"
  ws_enum_die_offset :: "64 word"
  ws_file_name_hashes :: "64 word list"
  ws_dindex :: drgn_dwarf_index
  ws_calls :: "index_call list"

text \<open>
  What one turn of the loop does: it goes on with a new state, or leaves the loop with the
  error to return (\<open>None\<close> for \<^verbatim>\<open>NULL\<close>), or has no result because \<^verbatim>\<open>index_die\<close> has
  none.
\<close>

datatype walk_step = Go_on walk_state | Leave "drgn_error option" walk_state | No_result

text \<open>
  The label \<^verbatim>\<open>next\<close>: descend into the children, or skip them through the sibling
  pointer; a DIE without children at depth 0 ends the loop. \<open>after\<close> is the position
  behind the DIE.
\<close>

definition walk_next :: "die \<Rightarrow> 64 word \<Rightarrow> walk_state \<Rightarrow> walk_step" where
  "walk_next d after st =
     (if die_flags d AND TAG_FLAG_CHILDREN \<noteq> 0 then
        (case die_sibling d of
           Some sibling \<Rightarrow> Go_on (st\<lparr>ws_ptr := sibling\<rparr>)
         | None \<Rightarrow> Go_on (st\<lparr>ws_ptr := after, ws_depth := ws_depth st + 1\<rparr>))
      else if ws_depth st = 0 then Leave None (st\<lparr>ws_ptr := after\<rparr>)
      else Go_on (st\<lparr>ws_ptr := after\<rparr>))"

text \<open>
  The part of the loop that indexes a DIE of interest under the offset \<open>die_offset\<close>: the
  name and the declaration file are taken from the DIE of the specification where the DIE
  has none, and a DIE with a name is passed to \<^verbatim>\<open>index_die\<close>. \<open>alloc\<close> says whether the
  two allocations of that call succeed.
\<close>

definition with_specification :: "compilation_unit \<Rightarrow> die \<Rightarrow> drgn_error + die" where
  "with_specification cu d =
     (case die_specification d of
        None \<Rightarrow> Inr d
      | Some specification \<Rightarrow>
          if die_name d = None \<or> die_decl_file d = 0 then
            (case cu_die_at cu specification of
               RErr err \<Rightarrow> Inl err
             | RNull p \<Rightarrow> Inl Sentinel
             | RDie decl p \<Rightarrow>
                 Inr (d\<lparr>die_name := (if die_name d = None then die_name decl else die_name d),
                         die_decl_file :=
                           (if die_decl_file d = 0 \<and> die_decl_file decl \<noteq> 0
                            then die_decl_file decl else die_decl_file d)\<rparr>))
          else Inr d)"

definition walk_index ::
  "(string \<Rightarrow> 64 word) \<Rightarrow> bool \<times> bool \<Rightarrow> compilation_unit \<Rightarrow> die \<Rightarrow> 64 word \<Rightarrow> 64 word \<Rightarrow>
   64 word \<Rightarrow> 64 word \<Rightarrow> walk_state \<Rightarrow> walk_step" where
  "walk_index hsh alloc cu d own_offset die_offset tag after st =
     (case with_specification cu d of
        Inl err \<Rightarrow> Leave (Some err) st
      | Inr d' \<Rightarrow>
          (case die_name d' of
             None \<Rightarrow> walk_next d' after st
           | Some name \<Rightarrow>
               if die_decl_file d' > length (ws_file_name_hashes st) then
                 Leave (Some (drgn_error_format DRGN_ERROR_DWARF_FORMAT
                                ''invalid DW_AT_decl_file %zu'')) st
               else
                 let file_name_hash =
                       (if die_decl_file d' \<noteq> 0
                        then ws_file_name_hashes st ! (die_decl_file d' - 1) else 0);
                     st' = st\<lparr>ws_calls := ws_calls st @
                             [\<lparr>ic_depth = ws_depth st, ic_die_offset = own_offset,
                               ic_name = name, ic_tag = tag,
                               ic_file_name_hash = file_name_hash, ic_offset = die_offset\<rparr>]\<rparr>
                 in case index_die hsh (fst alloc) (snd alloc) (ws_dindex st) name tag
                           file_name_hash (cu_file cu) die_offset of
                      None \<Rightarrow> No_result
                    | Some (Some err, dindex') \<Rightarrow> Leave (Some err) (st'\<lparr>ws_dindex := dindex'\<rparr>)
                    | Some (None, dindex') \<Rightarrow> walk_next d' after (st'\<lparr>ws_dindex := dindex'\<rparr>)))"

text \<open>One turn of the loop of \<^verbatim>\<open>index_cu\<close>.\<close>

definition walk_step ::
  "(string \<Rightarrow> 64 word) \<Rightarrow> (64 word \<Rightarrow> bool \<times> bool) \<Rightarrow> compilation_unit \<Rightarrow> walk_state \<Rightarrow> walk_step"
  where
  "walk_step hsh alloc cu st =
     (let die_offset = ws_ptr st
      in case cu_die_at cu (ws_ptr st) of
           RErr err \<Rightarrow> Leave (Some err) st
         | RNull after \<Rightarrow>
             if ws_depth st - 1 = 1 then
               Go_on (st\<lparr>ws_ptr := after, ws_depth := ws_depth st - 1, ws_enum_die_offset := 0\<rparr>)
             else if ws_depth st - 1 = 0 then
               Leave None (st\<lparr>ws_ptr := after, ws_depth := ws_depth st - 1\<rparr>)
             else Go_on (st\<lparr>ws_ptr := after, ws_depth := ws_depth st - 1\<rparr>)
         | RDie d after \<Rightarrow>
             let tag = (ucast (die_flags d AND TAG_MASK) :: 64 word)
             in if tag = DW_TAG_compile_unit then
                  (if ws_depth st = 0 \<and> die_stmt_list d \<noteq> SIZE_MAX then
                     (case cu_file_names cu (die_stmt_list d) of
                        Inl err \<Rightarrow> Leave (Some err) st
                      | Inr hashes \<Rightarrow>
                          walk_next d after
                            (st\<lparr>ws_file_name_hashes := ws_file_name_hashes st @ hashes\<rparr>))
                   else walk_next d after st)
                else if tag \<noteq> 0 \<and> die_flags d AND TAG_FLAG_DECLARATION = 0 then
                  (if ws_depth st = 1 \<and> tag = DW_TAG_enumeration_type then
                     walk_index hsh (alloc die_offset) cu d die_offset die_offset tag after
                       (st\<lparr>ws_enum_die_offset := die_offset\<rparr>)
                   else if ws_depth st = 2 \<and> tag = DW_TAG_enumerator \<and>
                           ws_enum_die_offset st \<noteq> 0 then
                     walk_index hsh (alloc die_offset) cu d die_offset (ws_enum_die_offset st)
                       tag after st
                   else if ws_depth st \<noteq> 1 then walk_next d after st
                   else walk_index hsh (alloc die_offset) cu d die_offset die_offset tag after st)
                else walk_next d after st)"

text \<open>
  The loop, for at most \<open>fuel\<close> turns, and \<^verbatim>\<open>index_cu\<close>: its result is how the loop was
  left, or that it was not within the turns given, with the state reached.
\<close>

datatype walk_result = Returned "drgn_error option" | Not_finished | Stuck

fun index_cu_loop ::
  "nat \<Rightarrow> (string \<Rightarrow> 64 word) \<Rightarrow> (64 word \<Rightarrow> bool \<times> bool) \<Rightarrow> compilation_unit \<Rightarrow>
   walk_state \<Rightarrow> walk_result \<times> walk_state" where
  "index_cu_loop 0 hsh alloc cu st = (Not_finished, st)"
| "index_cu_loop (Suc fuel) hsh alloc cu st =
     (case walk_step hsh alloc cu st of
        Go_on st' \<Rightarrow> index_cu_loop fuel hsh alloc cu st'
      | Leave err st' \<Rightarrow> (Returned err, st')
      | No_result \<Rightarrow> (Stuck, st))"

definition index_cu ::
  "nat \<Rightarrow> (string \<Rightarrow> 64 word) \<Rightarrow> (64 word \<Rightarrow> bool \<times> bool) \<Rightarrow> drgn_dwarf_index \<Rightarrow>
   compilation_unit \<Rightarrow> walk_result \<times> walk_state" where
  "index_cu fuel hsh alloc dindex cu =
     (let st = \<lparr>ws_ptr = cu_ptr cu + (if cu_is_64_bit cu then 23 else 11), ws_depth = 0,
                ws_enum_die_offset = 0, ws_file_name_hashes = [], ws_dindex = dindex,
                ws_calls = []\<rparr>
      in case cu_abbrev_err cu of
           Some err \<Rightarrow> (Returned (Some err), st)
         | None \<Rightarrow> index_cu_loop fuel hsh alloc cu st)"

section \<open>dwarf_index.c: updating the index\<close>

text \<open>
  \<^verbatim>\<open>index_cus\<close>, the units taken one after the other in the order of the array, which
  is one of the schedules of the parallel loop: after an error the remaining units are
  skipped. The result is \<open>None\<close> where \<^verbatim>\<open>index_cu\<close> does not return (within \<open>fuel\<close>
  turns of its loop).
\<close>

fun index_cus ::
  "nat \<Rightarrow> (string \<Rightarrow> 64 word) \<Rightarrow> (64 word \<Rightarrow> bool \<times> bool) \<Rightarrow> drgn_dwarf_index \<Rightarrow>
   compilation_unit list \<Rightarrow> (drgn_error option \<times> drgn_dwarf_index) option" where
  "index_cus fuel hsh alloc dindex [] = Some (None, dindex)"
| "index_cus fuel hsh alloc dindex (cu # cus) =
     (case index_cu fuel hsh alloc dindex cu of
        (Returned None, st) \<Rightarrow> index_cus fuel hsh alloc (ws_dindex st) cus
      | (Returned (Some err), st) \<Rightarrow> Some (Some err, ws_dindex st)
      | _ \<Rightarrow> None)"

text \<open>
  \<^verbatim>\<open>unindex_files\<close>. First every file of the list is marked as failed. Then, in every
  shard, the entries at the end of the array whose file has failed are dropped by
  lowering \<open>sh_num_entries\<close> (\<open>truncate_entries\<close>, from the number of entries down; it is
  \<open>None\<close> where it reads a cell never written or a file that is not allocated), and the
  names whose first entry is at or past the new end are deleted from the map. The cells of
  the array are not written. \<open>unindex_shards files shards n\<close> is the loop over the shards
  \<open>0\<close> to \<open>n - 1\<close>.
\<close>

definition mark_failed :: "(nat \<rightharpoonup> debug_file) \<Rightarrow> nat list \<Rightarrow> (nat \<rightharpoonup> debug_file)" where
  "mark_failed files fs =
     (\<lambda>f. if f \<in> set fs then map_option (\<lambda>d. d\<lparr>df_failed := True\<rparr>) (files f) else files f)"

fun truncate_entries ::
  "(nat \<rightharpoonup> debug_file) \<Rightarrow> (nat \<rightharpoonup> die_entry) \<Rightarrow> nat \<Rightarrow> nat option" where
  "truncate_entries files entries 0 = Some 0"
| "truncate_entries files entries (Suc n) =
     (case entries n of
        None \<Rightarrow> None
      | Some entry \<Rightarrow>
          (case files (de_file entry) of
             None \<Rightarrow> None
           | Some file \<Rightarrow>
               if df_failed file then truncate_entries files entries n else Some (Suc n)))"

definition unindex_shard ::
  "(nat \<rightharpoonup> debug_file) \<Rightarrow> dwarf_index_shard \<Rightarrow> dwarf_index_shard option" where
  "unindex_shard files shard =
     (case truncate_entries files (sh_entries shard) (sh_num_entries shard) of
        None \<Rightarrow> None
      | Some n \<Rightarrow>
          Some (shard
            \<lparr>sh_num_entries := n,
             sh_map := (\<lambda>name. case sh_map shard name of
                                 None \<Rightarrow> None
                               | Some v \<Rightarrow> if v \<ge> n then None else Some v)\<rparr>))"

fun unindex_shards ::
  "(nat \<rightharpoonup> debug_file) \<Rightarrow> (nat \<Rightarrow> dwarf_index_shard) \<Rightarrow> nat \<Rightarrow>
   (nat \<Rightarrow> dwarf_index_shard) option" where
  "unindex_shards files shards 0 = Some shards"
| "unindex_shards files shards (Suc i) =
     (case unindex_shards files shards i of
        None \<Rightarrow> None
      | Some shards' \<Rightarrow>
          (case unindex_shard files (shards' i) of
             None \<Rightarrow> None
           | Some shard \<Rightarrow> Some (shards'(i := shard))))"

definition unindex_files :: "drgn_dwarf_index \<Rightarrow> nat list \<Rightarrow> drgn_dwarf_index option" where
  "unindex_files dindex fs =
     (let files = mark_failed (di_files dindex) fs
      in case unindex_shards files (di_shards dindex) NUM_SHARDS of
           None \<Rightarrow> None
         | Some shards \<Rightarrow> Some (dindex\<lparr>di_files := files, di_shards := shards\<rparr>))"

text \<open>
  \<^verbatim>\<open>free_files\<close> releases the files of the list; the model keeps their records, marked.
\<close>

definition free_files :: "drgn_dwarf_index \<Rightarrow> nat list \<Rightarrow> drgn_dwarf_index" where
  "free_files dindex fs =
     dindex\<lparr>di_files :=
       (\<lambda>f. if f \<in> set fs then map_option (\<lambda>d. d\<lparr>df_freed := True\<rparr>) (di_files dindex f)
             else di_files dindex f)\<rparr>"

text \<open>
  The steps of \<^verbatim>\<open>drgn_dwarf_index_update\<close> before the indexing, on the opened files in
  their order: \<^verbatim>\<open>apply_relocations\<close> (the first error of a file, if any), then for each
  file the test that \<^verbatim>\<open>.debug_str\<close> ends with a nul and \<^verbatim>\<open>read_cus\<close>, which appends
  the units of the file. The model reads a file that is not allocated as a file with no
  relocation error, an empty \<^verbatim>\<open>.debug_str\<close> and no unit; the opened files are allocated.
\<close>

definition file_of :: "drgn_dwarf_index \<Rightarrow> nat \<Rightarrow> debug_file" where
  "file_of dindex f =
     (case di_files dindex f of
        Some d \<Rightarrow> d
      | None \<Rightarrow> \<lparr>df_failed = False, df_freed = False, df_reloc_err = None, df_debug_str = [],
                   df_cus = Inr []\<rparr>)"

fun apply_relocations :: "drgn_dwarf_index \<Rightarrow> nat list \<Rightarrow> drgn_error option" where
  "apply_relocations dindex [] = None"
| "apply_relocations dindex (f # fs) =
     (case df_reloc_err (file_of dindex f) of
        Some err \<Rightarrow> Some err
      | None \<Rightarrow> apply_relocations dindex fs)"

fun read_all_cus ::
  "drgn_dwarf_index \<Rightarrow> nat list \<Rightarrow> compilation_unit list \<Rightarrow> drgn_error + compilation_unit list"
  where
  "read_all_cus dindex [] cus = Inr cus"
| "read_all_cus dindex (f # fs) cus =
     (let debug_str = df_debug_str (file_of dindex f)
      in if debug_str = [] \<or> last debug_str \<noteq> 0 then
           Inl (drgn_error_create DRGN_ERROR_DWARF_FORMAT ''.debug_str is not null terminated'')
         else case df_cus (file_of dindex f) of
                Inl err \<Rightarrow> Inl err
              | Inr file_cus \<Rightarrow> read_all_cus dindex fs (cus @ file_cus))"

text \<open>
  \<^verbatim>\<open>drgn_dwarf_index_update\<close> returns its error (\<open>None\<close> for \<^verbatim>\<open>NULL\<close>) and the index; it
  has no result where \<^verbatim>\<open>index_cus\<close> or \<^verbatim>\<open>unindex_files\<close> has none.
\<close>

definition drgn_dwarf_index_update ::
  "nat \<Rightarrow> (string \<Rightarrow> 64 word) \<Rightarrow> (64 word \<Rightarrow> bool \<times> bool) \<Rightarrow> drgn_dwarf_index \<Rightarrow>
   (drgn_error option \<times> drgn_dwarf_index) option" where
  "drgn_dwarf_index_update fuel hsh alloc dindex0 =
     (let first = di_opened dindex0;
          dindex = dindex0\<lparr>di_opened := []\<rparr>
      in if first = [] then Some (None, dindex)
         else case apply_relocations dindex first of
           Some err \<Rightarrow> Some (Some err, free_files dindex first)
         | None \<Rightarrow>
             (case read_all_cus dindex first [] of
                Inl err \<Rightarrow> Some (Some err, free_files dindex first)
              | Inr cus \<Rightarrow>
                  (case index_cus fuel hsh alloc dindex cus of
                     None \<Rightarrow> None
                   | Some (Some err, dindex') \<Rightarrow>
                       (case unindex_files dindex' first of
                          None \<Rightarrow> None
                        | Some dindex'' \<Rightarrow> Some (Some err, free_files dindex'' first))
                   | Some (None, dindex') \<Rightarrow>
                       Some (None, dindex'\<lparr>di_indexed := di_indexed dindex' @ first\<rparr>))))"

text \<open>
  \<^verbatim>\<open>drgn_dwarf_index_create\<close> and the opening of a file, which allocates it and appends
  it to the list of the opened files.
\<close>

definition empty_index :: drgn_dwarf_index where
  "empty_index =
     \<lparr>di_shards = (\<lambda>i. empty_shard), di_files = Map.empty, di_opened = [], di_indexed = []\<rparr>"

definition drgn_dwarf_index_open ::
  "drgn_dwarf_index \<Rightarrow> nat \<Rightarrow> debug_file \<Rightarrow> drgn_dwarf_index" where
  "drgn_dwarf_index_open dindex f file =
     dindex\<lparr>di_files := (di_files dindex)(f \<mapsto> file), di_opened := di_opened dindex @ [f]\<rparr>"


text \<open>
  Units for the examples. A unit is given by its DIEs in the order of their positions from
  11 on, each one position long; past them the unit is truncated. \<open>plain_die\<close> is a DIE
  with a name and the flags given and nothing else.
\<close>

definition truncated :: drgn_error where
  "truncated = drgn_error_create DRGN_ERROR_DWARF_FORMAT ''debug information is truncated''"

definition plain_die :: "string option \<Rightarrow> 8 word \<Rightarrow> die" where
  "plain_die name flags =
     \<lparr>die_sibling = None, die_name = name, die_stmt_list = SIZE_MAX, die_decl_file = 0,
      die_specification = None, die_flags = flags\<rparr>"

definition unit_of :: "nat \<Rightarrow> die option list \<Rightarrow> compilation_unit" where
  "unit_of file dies =
     \<lparr>cu_file = file, cu_ptr = 0, cu_is_64_bit = False, cu_abbrev_err = None,
      cu_die_at = (\<lambda>p. if 11 \<le> unat p \<and> unat p < 11 + length dies
                        then (case dies ! (unat p - 11) of
                                None \<Rightarrow> RNull (p + 1)
                              | Some d \<Rightarrow> RDie d (p + 1))
                        else RErr truncated),
      cu_file_names = (\<lambda>stmt_list. Inr [])\<rparr>"

definition file_with :: "compilation_unit list \<Rightarrow> debug_file" where
  "file_with cus =
     \<lparr>df_failed = False, df_freed = False, df_reloc_err = None, df_debug_str = [0],
      df_cus = Inr cus\<rparr>"


definition variable_unit :: compilation_unit where
  "variable_unit =
     unit_of 10 [Some (plain_die None 0x91), Some (plain_die (Some ''foo'') 0x34), None]"

definition typedef_unit :: compilation_unit where
  "typedef_unit =
     unit_of 20 [Some (plain_die None 0x91), Some (plain_die (Some ''foo'') 0x16)]"



text \<open>
  The state of a shard between two calls of \<^verbatim>\<open>index_die\<close>: every cell in use has been
  written and its \<open>de_next\<close> is \<^verbatim>\<open>SIZE_MAX\<close> or the index of a later cell in use, and the
  map has indices of cells in use. \<open>key_at\<close> is what \<^verbatim>\<open>index_die\<close> compares, the tag and
  the file name hash of the entry at an index. \<open>is_chain entries i c\<close> says that \<open>c\<close> lists
  the indices from \<open>i\<close> along \<open>de_next\<close> up to \<^verbatim>\<open>SIZE_MAX\<close>.
\<close>

definition entries_wf :: "(nat \<rightharpoonup> die_entry) \<Rightarrow> nat \<Rightarrow> bool" where
  "entries_wf entries n \<longleftrightarrow>
     (\<forall>i < n. case entries i of
                 None \<Rightarrow> False
               | Some entry \<Rightarrow>
                   de_next entry = SIZE_MAX \<or> i < de_next entry \<and> de_next entry < n)"

definition shard_wf :: "dwarf_index_shard \<Rightarrow> bool" where
  "shard_wf shard \<longleftrightarrow>
     entries_wf (sh_entries shard) (sh_num_entries shard) \<and>
     (\<forall>name v. sh_map shard name = Some v \<longrightarrow> v < sh_num_entries shard)"

definition key_at :: "(nat \<rightharpoonup> die_entry) \<Rightarrow> nat \<Rightarrow> (64 word \<times> 64 word) option" where
  "key_at entries i = map_option (\<lambda>entry. (de_tag entry, de_file_name_hash entry)) (entries i)"

fun is_chain :: "(nat \<rightharpoonup> die_entry) \<Rightarrow> nat \<Rightarrow> nat list \<Rightarrow> bool" where
  "is_chain entries i [] \<longleftrightarrow> i = SIZE_MAX"
| "is_chain entries i (j # rest) \<longleftrightarrow>
     i \<noteq> SIZE_MAX \<and> j = i \<and>
     (case entries i of None \<Rightarrow> False | Some entry \<Rightarrow> is_chain entries (de_next entry) rest)"

text \<open>
  What an entry says of its definition: the tag, the file name hash, the file and the
  offset, which is all of it but \<open>de_next\<close>.
\<close>

definition definition_at ::
  "(nat \<rightharpoonup> die_entry) \<Rightarrow> nat \<Rightarrow> (64 word \<times> 64 word \<times> nat \<times> 64 word) option" where
  "definition_at entries i =
     map_option (\<lambda>entry. (de_tag entry, de_file_name_hash entry, de_file entry, de_offset entry))
       (entries i)"


text \<open>
  A unit with an enumeration \<open>E\<close> without children, followed by a structure \<open>S\<close> that has
  an enumerator \<open>A\<close> as its child.
\<close>

definition childless_enumeration_unit :: compilation_unit where
  "childless_enumeration_unit =
     unit_of 10 [Some (plain_die None 0x91), Some (plain_die (Some ''E'') 0x04),
                 Some (plain_die (Some ''S'') 0x93), Some (plain_die (Some ''A'') 0x28),
                 None, None]"

definition no_hash :: "string \<Rightarrow> 64 word" where
  "no_hash name = 0"

definition can_allocate :: "64 word \<Rightarrow> bool \<times> bool" where
  "can_allocate die_offset = (True, True)"

text \<open>
  The index after the file 10 with the unit of the variable \<open>foo\<close> has been indexed, and
  after the file 20 with the unit of the type \<open>foo\<close> has been opened; the first shard
  once the type is indexed too, and once the entries of the file 20 are dropped from it;
  the files once the file 20 is marked as failed.
\<close>

definition variable_shard :: dwarf_index_shard where
  "variable_shard =
     \<lparr>sh_map = [''foo'' \<mapsto> 0],
      sh_entries = [0 \<mapsto> \<lparr>de_tag = 0x34, de_file_name_hash = 0, de_next = SIZE_MAX,
                             de_file = 10, de_offset = 12\<rparr>],
      sh_num_entries = 1, sh_entries_capacity = 4\<rparr>"

definition variable_index :: drgn_dwarf_index where
  "variable_index =
     \<lparr>di_shards = (\<lambda>i. empty_shard)(0 := variable_shard),
      di_files = [10 \<mapsto> file_with [variable_unit]], di_opened = [], di_indexed = [10]\<rparr>"

definition opened_index :: drgn_dwarf_index where
  "opened_index = drgn_dwarf_index_open variable_index 20 (file_with [typedef_unit])"

definition typedef_shard :: dwarf_index_shard where
  "typedef_shard =
     \<lparr>sh_map = [''foo'' \<mapsto> 0],
      sh_entries =
        [0 \<mapsto> \<lparr>de_tag = 0x34, de_file_name_hash = 0, de_next = 1, de_file = 10,
                 de_offset = 12\<rparr>,
         1 \<mapsto> \<lparr>de_tag = 0x16, de_file_name_hash = 0, de_next = SIZE_MAX, de_file = 20,
                 de_offset = 12\<rparr>],
      sh_num_entries = 2, sh_entries_capacity = 4\<rparr>"

definition stale_shard :: dwarf_index_shard where
  "stale_shard = typedef_shard\<lparr>sh_num_entries := 1\<rparr>"

definition failed_files :: "nat \<rightharpoonup> debug_file" where
  "failed_files =
     [10 \<mapsto> file_with [variable_unit], 20 \<mapsto> (file_with [typedef_unit])\<lparr>df_failed := True\<rparr>]"

text \<open>
  The index that the failed update of the file 20 returns; a unit that defines the
  structure \<open>foo\<close>, for a file 30; and the first shard once that structure is indexed in
  the index of the failed update.
\<close>

definition failed_index :: drgn_dwarf_index where
  "failed_index =
     free_files (opened_index\<lparr>di_opened := [], di_files := failed_files,
       di_shards := (\<lambda>i. empty_shard)(0 := stale_shard)\<rparr>) [20]"

definition struct_unit :: compilation_unit where
  "struct_unit =
     unit_of 30 [Some (plain_die None 0x91), Some (plain_die (Some ''foo'') 0x13), None]"

definition loop_shard :: dwarf_index_shard where
  "loop_shard =
     \<lparr>sh_map = [''foo'' \<mapsto> 0],
      sh_entries =
        [0 \<mapsto> \<lparr>de_tag = 0x34, de_file_name_hash = 0, de_next = 1, de_file = 10,
                 de_offset = 12\<rparr>,
         1 \<mapsto> \<lparr>de_tag = 0x13, de_file_name_hash = 0, de_next = 1, de_file = 30,
                 de_offset = 12\<rparr>],
      sh_num_entries = 2, sh_entries_capacity = 4\<rparr>"

section \<open>stack_trace.c: frame symbols\<close>

text \<open>
  A frame symbol, and the per-frame state with its two symbol vectors (a vector is the list
  of its \<^verbatim>\<open>size\<close> elements). An object is whatever \<^verbatim>\<open>drgn_stack_frame_object\<close> makes
  of a symbol: that function needs the DWARF library, so it is the parameter \<open>mk_obj\<close>,
  which returns the object or an error. \<open>scan\<close> is the outcome of looking the frame's
  block up and collecting its symbols, which \<^verbatim>\<open>drgn_stack_frame_parse_parameters\<close> and
  \<^verbatim>\<open>drgn_stack_frame_parse_variables\<close> do once per frame.
\<close>

record drgn_frame_symbol =
  sym_parameter :: bool
  sym_name :: string
  sym_var_die :: nat

record drgn_frame_state =
  fs_variables :: "drgn_frame_symbol list"
  fs_parameters :: "drgn_frame_symbol list"
  fs_bias :: "64 word"
  fs_flags :: "32 word"

definition DRGN_FRAME_STATE_PARAMS_EVALUATED :: "32 word" where
  "DRGN_FRAME_STATE_PARAMS_EVALUATED = 1"

definition DRGN_FRAME_STATE_SYMBOLS_EVALUATED :: "32 word" where
  "DRGN_FRAME_STATE_SYMBOLS_EVALUATED = 2"

definition drgn_stack_frame_parse_parameters ::
  "(drgn_error + drgn_frame_symbol list) \<Rightarrow> drgn_frame_state \<Rightarrow> drgn_error + drgn_frame_state"
  where
  "drgn_stack_frame_parse_parameters scan state =
     (if fs_flags state AND DRGN_FRAME_STATE_PARAMS_EVALUATED \<noteq> 0 then Inr state
      else case scan of
             Inl err \<Rightarrow> Inl err
           | Inr syms \<Rightarrow>
               Inr (state\<lparr>fs_parameters := syms,
                          fs_flags := fs_flags state OR DRGN_FRAME_STATE_PARAMS_EVALUATED\<rparr>))"

definition drgn_stack_frame_parse_variables ::
  "(drgn_error + drgn_frame_symbol list) \<Rightarrow> drgn_frame_state \<Rightarrow> drgn_error + drgn_frame_state"
  where
  "drgn_stack_frame_parse_variables scan state =
     (if fs_flags state AND DRGN_FRAME_STATE_SYMBOLS_EVALUATED \<noteq> 0 then Inr state
      else case scan of
             Inl err \<Rightarrow> Inl err
           | Inr syms \<Rightarrow>
               Inr (state\<lparr>fs_variables := syms,
                          fs_flags := fs_flags state OR DRGN_FRAME_STATE_SYMBOLS_EVALUATED\<rparr>))"

text \<open>
  The result of a lookup by index: the error returned (\<open>None\<close> for \<^verbatim>\<open>NULL\<close>), the frame
  state, and the caller's \<^verbatim>\<open>*name\<close> and \<^verbatim>\<open>*ret_obj\<close> as the call leaves them. The whole
  result is \<open>None\<close> where the code reads \<^verbatim>\<open>symbols[index]\<close> outside the vector.
\<close>

definition out_of_range :: drgn_error where
  "out_of_range = drgn_error_format DRGN_ERROR_OUT_OF_BOUNDS ''index %lu is out of range''"

definition symbol_by_index ::
  "(drgn_frame_symbol \<Rightarrow> drgn_error + 'o) \<Rightarrow> drgn_frame_state \<Rightarrow> drgn_frame_symbol list \<Rightarrow>
   nat \<Rightarrow> string \<Rightarrow> 'o \<Rightarrow> (drgn_error option \<times> drgn_frame_state \<times> string \<times> 'o) option" where
  "symbol_by_index mk_obj state symbols index name ret_obj =
     (let max = length symbols
      in if index > max then Some (Some out_of_range, state, name, ret_obj)
         else if index \<ge> length symbols then None
         else case mk_obj (symbols ! index) of
                Inl err \<Rightarrow> Some (Some err, state, name, ret_obj)
              | Inr obj \<Rightarrow> Some (None, state, sym_name (symbols ! index), obj))"

definition drgn_stack_frame_parameter_by_index ::
  "(drgn_error + drgn_frame_symbol list) \<Rightarrow> (drgn_frame_symbol \<Rightarrow> drgn_error + 'o) \<Rightarrow>
   drgn_frame_state \<Rightarrow> nat \<Rightarrow> string \<Rightarrow> 'o \<Rightarrow>
   (drgn_error option \<times> drgn_frame_state \<times> string \<times> 'o) option" where
  "drgn_stack_frame_parameter_by_index scan mk_obj state index name ret_obj =
     (case drgn_stack_frame_parse_parameters scan state of
        Inl err \<Rightarrow> Some (Some err, state, name, ret_obj)
      | Inr state' \<Rightarrow> symbol_by_index mk_obj state' (fs_parameters state') index name ret_obj)"

definition drgn_stack_frame_variable_by_index ::
  "(drgn_error + drgn_frame_symbol list) \<Rightarrow> (drgn_frame_symbol \<Rightarrow> drgn_error + 'o) \<Rightarrow>
   drgn_frame_state \<Rightarrow> nat \<Rightarrow> string \<Rightarrow> 'o \<Rightarrow>
   (drgn_error option \<times> drgn_frame_state \<times> string \<times> 'o) option" where
  "drgn_stack_frame_variable_by_index scan mk_obj state index name ret_obj =
     (case drgn_stack_frame_parse_variables scan state of
        Inl err \<Rightarrow> Some (Some err, state, name, ret_obj)
      | Inr state' \<Rightarrow> symbol_by_index mk_obj state' (fs_variables state') index name ret_obj)"

section \<open>stack_trace.c: requesting a stack trace\<close>

text \<open>
  The fields of \<^verbatim>\<open>struct drgn_program\<close> that \<^verbatim>\<open>drgn_get_stack_trace\<close> reads and writes.
  \<^verbatim>\<open>DRGN_PROGRAM_IS_LINUX_KERNEL\<close> is bit 0 of the flags.
\<close>

record 'o drgn_program =
  has_platform :: bool
  prog_flags :: "32 word"
  attached_dwfl_state :: bool
  stack_trace_tid :: "32 word"
  stack_trace_obj :: "'o option"
  stack_trace_err :: "drgn_error option"

definition DRGN_PROGRAM_IS_LINUX_KERNEL :: "32 word" where
  "DRGN_PROGRAM_IS_LINUX_KERNEL = 1"

text \<open>
  Modelled from the spec: the flag of a live program, \<^verbatim>\<open>DRGN_PROGRAM_IS_LIVE\<close>, is used by
  \<^verbatim>\<open>stack_trace.c\<close> and is not declared in the \<^verbatim>\<open>drgn.h\<close> at hand, whose flags end
  with the kernel flag; it is the next bit.
\<close>

definition DRGN_PROGRAM_IS_LIVE :: "32 word" where
  "DRGN_PROGRAM_IS_LIVE = 2"

text \<open>
  What the DWARF library and the allocator answer during one call, in the order of the
  calls: \<^verbatim>\<open>drgn_program_get_dwfl\<close> (its error), \<^verbatim>\<open>dwfl_attach_state\<close>,
  \<^verbatim>\<open>dwfl_attach_thread\<close> (the thread, if any, and the error its callbacks leave in
  \<^verbatim>\<open>prog->stack_trace_err\<close>), \<^verbatim>\<open>malloc\<close> of the trace, \<^verbatim>\<open>dwfl_thread_getframes\<close> (the
  frames appended, and the error left by the callback), \<^verbatim>\<open>calloc\<close> of the frame states,
  and the error \<^verbatim>\<open>drgn_error_libdwfl\<close> makes.
\<close>

record dwfl_env =
  get_dwfl_err :: "drgn_error option"
  attach_state_ok :: bool
  attach_thread :: "nat option \<times> drgn_error option"
  trace_alloc_ok :: bool
  getframes :: "nat list \<times> drgn_error option"
  states_alloc_ok :: bool
  libdwfl_error :: drgn_error

record drgn_stack_trace =
  trace_thread :: nat
  trace_frames :: "nat list"
  trace_states :: "drgn_frame_state list"

definition empty_frame_state :: drgn_frame_state where
  "empty_frame_state = \<lparr>fs_variables = [], fs_parameters = [], fs_bias = 0, fs_flags = 0\<rparr>"

text \<open>
  \<^verbatim>\<open>drgn_get_stack_trace\<close> returns its error (\<open>None\<close> for \<^verbatim>\<open>NULL\<close>), the trace written to
  \<^verbatim>\<open>*ret\<close> if one is, and the program as it leaves it.
\<close>

definition drgn_get_stack_trace ::
  "dwfl_env \<Rightarrow> 'o drgn_program \<Rightarrow> 32 word \<Rightarrow> 'o option \<Rightarrow>
   drgn_error option \<times> drgn_stack_trace option \<times> 'o drgn_program" where
  "drgn_get_stack_trace env prog tid obj =
     (if \<not> has_platform prog then
        (Some (drgn_error_create DRGN_ERROR_INVALID_ARGUMENT
                 ''cannot unwind stack without platform''), None, prog)
      else if prog_flags prog AND (DRGN_PROGRAM_IS_LINUX_KERNEL OR DRGN_PROGRAM_IS_LIVE) =
              DRGN_PROGRAM_IS_LIVE then
        (Some (drgn_error_create DRGN_ERROR_INVALID_ARGUMENT
                 ''stack unwinding is not yet supported for live processes''), None, prog)
      else case get_dwfl_err env of
        Some err \<Rightarrow> (Some err, None, prog)
      | None \<Rightarrow>
          if \<not> attached_dwfl_state prog \<and> \<not> attach_state_ok env then
            (Some (libdwfl_error env), None, prog)
          else
            let prog1 = prog\<lparr>attached_dwfl_state := True, stack_trace_tid := 0,
                              stack_trace_obj := None\<rparr>
            in case snd (attach_thread env) of
                 Some err \<Rightarrow> (Some err, None, prog1\<lparr>stack_trace_err := None\<rparr>)
               | None \<Rightarrow>
                   (case (stack_trace_err prog, fst (attach_thread env)) of
                      (Some err, _) \<Rightarrow> (Some err, None, prog1\<lparr>stack_trace_err := None\<rparr>)
                    | (None, None) \<Rightarrow> (Some (libdwfl_error env), None, prog1)
                    | (None, Some thread) \<Rightarrow>
                        if \<not> trace_alloc_ok env then (Some drgn_enomem, None, prog1)
                        else case snd (getframes env) of
                               Some err \<Rightarrow> (Some err, None, prog1\<lparr>stack_trace_err := None\<rparr>)
                             | None \<Rightarrow>
                                 if \<not> states_alloc_ok env then (None, None, prog1)
                                 else
                                   (None,
                                    Some \<lparr>trace_thread = thread,
                                          trace_frames = fst (getframes env),
                                          trace_states =
                                            replicate (length (fst (getframes env)))
                                              empty_frame_state\<rparr>,
                                    prog1)))"

definition drgn_program_stack_trace ::
  "dwfl_env \<Rightarrow> 'o drgn_program \<Rightarrow> 32 word \<Rightarrow>
   drgn_error option \<times> drgn_stack_trace option \<times> 'o drgn_program" where
  "drgn_program_stack_trace env prog tid = drgn_get_stack_trace env prog tid None"

text \<open>
  An object, for \<^verbatim>\<open>drgn_object_stack_trace\<close>: whether its underlying type is an integer
  type, and what \<^verbatim>\<open>drgn_object_read_integer\<close> (\<^verbatim>\<open>object.c\<close>) returns for it, the value or
  an error. The thread id is the value converted to \<^verbatim>\<open>uint32_t\<close>.
\<close>

record drgn_object =
  obj_is_int :: bool
  obj_read_integer :: "drgn_error + 64 word"

definition drgn_object_stack_trace ::
  "dwfl_env \<Rightarrow> drgn_object drgn_program \<Rightarrow> drgn_object \<Rightarrow>
   drgn_error option \<times> drgn_stack_trace option \<times> drgn_object drgn_program" where
  "drgn_object_stack_trace env prog obj =
     (if obj_is_int obj then
        (case obj_read_integer obj of
           Inl err \<Rightarrow> (Some err, None, prog)
         | Inr uvalue \<Rightarrow> drgn_get_stack_trace env prog (ucast uvalue) None)
      else drgn_get_stack_trace env prog 0 (Some obj))"

text \<open>
  For the examples: a live user-space program with a platform, and a DWARF library that
  would attach and unwind.
\<close>

definition live_program :: "'o drgn_program" where
  "live_program = \<lparr>has_platform = True, prog_flags = 2, attached_dwfl_state = False,
                    stack_trace_tid = 0, stack_trace_obj = None, stack_trace_err = None\<rparr>"

definition willing_env :: dwfl_env where
  "willing_env = \<lparr>get_dwfl_err = None, attach_state_ok = True, attach_thread = (Some 1, None),
                  trace_alloc_ok = True, getframes = ([0], None), states_alloc_ok = True,
                  libdwfl_error = Error DRGN_ERROR_OTHER ''libdwfl error''\<rparr>"

section \<open>Theorems\<close>


subsection \<open>Integer literals\<close>

text \<open>
  C2. The claim: \<^verbatim>\<open>c_token_to_u64\<close> returns the value of the token in its base, the
  hexadecimal digits \<open>a\<close> to \<open>f\<close> counting 10 to 15. The code computes such a digit as
  \<^verbatim>\<open>c - 'a'\<close>, so it counts 0 to 5: the token \<open>0xa\<close> converts to 0 and not to 10.
\<close>

theorem c_token_to_u64_hex_a:
  "c_token_to_u64 \<lparr>tok_kind = C_TOKEN_NUMBER, tok_value = ''0xa'', tok_len = 3\<rparr> = Some (Inr 0)"
  by (simp add: c_token_to_u64_def token_chars_def c_at_def char_to_int_def UINT64_MAX_def
      upt_conv_Cons)

subsection \<open>Character escapes\<close>

lemma hex_digit_upto: "list_all (\<lambda>n. hex_digit n = ''0123456789abcdef'' ! n) [0 ..< 16]"
  by code_simp

lemma hex_digit_table: "n < 16 \<Longrightarrow> hex_digit n = ''0123456789abcdef'' ! n"
  using hex_digit_upto by (simp add: list_all_iff)

lemma c_pretty_print_character_hex:
  assumes "c \<notin> {7, 8, 9, 10, 11, 12, 13, 0x22, 0x5C}" "c \<le> 0x1F \<or> c \<ge> 0x7F"
  shows "c_pretty_print_character True c sb =
           Inr (sb @ [CHR 0x5C, CHR ''x'', ''0123456789abcdef'' ! (unat c div 16),
                      ''0123456789abcdef'' ! (unat c mod 16)])"
proof -
  have d: "unat c div 16 < 16"
    using unsigned_less [of c, where ?'a = nat] by simp
  show ?thesis
    using assms d
    by (simp add: c_pretty_print_character_def string_builder_append_def format_02x_def
        hex_digit_table del: nth_Cons_numeral)
qed

lemma c_pretty_print_character_plain:
  assumes "c \<notin> {0x22, 0x5C}" "0x1F < c" "c < 0x7F"
  shows "c_pretty_print_character True c sb = Inr (sb @ [char_of (unat c)])"
  using assms by (auto simp: c_pretty_print_character_def string_builder_appendc_def)

text \<open>
  C8. Where the string builder can grow, \<^verbatim>\<open>c_pretty_print_character\<close> appends to the text
  \<open>sb\<close> exactly: backslash and \<open>a\<close>, \<open>b\<close>, \<open>t\<close>, \<open>n\<close>, \<open>v\<close>, \<open>f\<close>, \<open>r\<close> for the bytes 7 to
  13, backslash and the byte itself for the double quote (0x22) and the backslash (0x5C);
  for every other byte that is at most 0x1f or at least 0x7f the four characters backslash,
  \<open>x\<close> and the two lower-case hexadecimal digits of the byte; and the byte alone otherwise.
\<close>

theorem c_pretty_print_character_escapes:
  "c_pretty_print_character True 7 sb = Inr (sb @ [CHR 0x5C, CHR ''a'']) \<and>
   c_pretty_print_character True 8 sb = Inr (sb @ [CHR 0x5C, CHR ''b'']) \<and>
   c_pretty_print_character True 9 sb = Inr (sb @ [CHR 0x5C, CHR ''t'']) \<and>
   c_pretty_print_character True 10 sb = Inr (sb @ [CHR 0x5C, CHR ''n'']) \<and>
   c_pretty_print_character True 11 sb = Inr (sb @ [CHR 0x5C, CHR ''v'']) \<and>
   c_pretty_print_character True 12 sb = Inr (sb @ [CHR 0x5C, CHR ''f'']) \<and>
   c_pretty_print_character True 13 sb = Inr (sb @ [CHR 0x5C, CHR ''r'']) \<and>
   c_pretty_print_character True 0x22 sb = Inr (sb @ [CHR 0x5C, CHR 0x22]) \<and>
   c_pretty_print_character True 0x5C sb = Inr (sb @ [CHR 0x5C, CHR 0x5C]) \<and>
   (c \<notin> {7, 8, 9, 10, 11, 12, 13, 0x22, 0x5C} \<and> (c \<le> 0x1F \<or> c \<ge> 0x7F) \<longrightarrow>
      c_pretty_print_character True c sb =
        Inr (sb @ [CHR 0x5C, CHR ''x'', ''0123456789abcdef'' ! (unat c div 16),
                   ''0123456789abcdef'' ! (unat c mod 16)])) \<and>
   (c \<notin> {0x22, 0x5C} \<and> 0x1F < c \<and> c < 0x7F \<longrightarrow>
      c_pretty_print_character True c sb = Inr (sb @ [char_of (unat c)]))"
  using c_pretty_print_character_hex [of c sb] c_pretty_print_character_plain [of c sb]
  by (simp add: c_pretty_print_character_def string_builder_append_def)

theorem c_pretty_print_character_escapes_witness:
  "c_pretty_print_character True 10 ''ab'' = Inr [CHR ''a'', CHR ''b'', CHR 0x5C, CHR ''n''] \<and>
   c_pretty_print_character True 0x9F ''ab'' =
     Inr [CHR ''a'', CHR ''b'', CHR 0x5C, CHR ''x'', CHR ''9'', CHR ''f''] \<and>
   c_pretty_print_character True 0x41 ''ab'' = Inr ''abA''"
proof -
  have "char_of (65::nat) = CHR ''A''" by code_simp
  then show ?thesis
    using c_pretty_print_character_escapes [of "''ab''" "0x9F"]
      c_pretty_print_character_escapes [of "''ab''" "0x41"]
    by simp
qed

subsection \<open>Specifier-qualifier lists\<close>

text \<open>
  C5. The claim: of the plain identifiers exactly \<open>size_t\<close> and \<open>ptrdiff_t\<close> map to their
  primitive types, and every other identifier is looked up as a typedef by its full name.
  The code compares with \<^verbatim>\<open>strncmp\<close> over the length of the literal only, so an
  identifier that merely starts with \<open>size_t\<close> is taken for it: for \<open>size_tx\<close> the result
  is the primitive type \<^verbatim>\<open>DRGN_C_TYPE_SIZE_T\<close>, whatever the type index would find.
\<close>

theorem c_parse_specifier_qualifier_list_size_tx:
  "c_parse_specifier_qualifier_list True tindex
     [Inr \<lparr>tok_kind = C_TOKEN_IDENTIFIER, tok_value = ''size_tx'', tok_len = 7\<rparr>] filename =
   Some (Inr (\<lparr>qt_type = primitive_types tindex DRGN_C_TYPE_SIZE_T, qt_qualifiers = 0\<rparr>,
              [Inr eof_token]))"
  by (simp add: c_parse_specifier_qualifier_list_def sq_init_def is_qualifier_token_def
      is_specifier_token_def sq_resolve_def strncmp_eq_def)

subsection \<open>The usual arithmetic conversions\<close>






subsection \<open>Relocations\<close>

lemma bit_le_word:
  "bit (le_word bs :: 'a::len word) n \<longleftrightarrow>
     n < LENGTH('a) \<and> n div 8 < length bs \<and> bit (bs ! (n div 8)) (n mod 8)"
proof (induction bs arbitrary: n)
  case Nil
  then show ?case by simp
next
  case (Cons b bs)
  show ?case
  proof (cases "n < 8")
    case True
    then show ?thesis
      by (auto simp: bit_simps dest: bit_imp_le_length)
  next
    case False
    then have d: "n div 8 = Suc ((n - 8) div 8)" and m: "n mod 8 = (n - 8) mod 8"
      by (simp_all add: le_div_geq le_mod_geq)
    from False have "bit (ucast b :: 'a word) n = False"
      by (auto simp: bit_simps dest: bit_imp_le_length)
    with False show ?thesis
      by (auto simp: bit_simps Cons.IH d m)
  qed
qed

lemma le_word_le_bytes:
  assumes "LENGTH('a::len) \<le> 8 * k"
  shows "le_word (le_bytes k w) = (w :: 'a word)"
proof (rule bit_eqI)
  fix n
  assume "possible_bit TYPE('a word) n"
  then have n: "n < LENGTH('a)" by (simp add: possible_bit_word)
  with assms have k: "n div 8 < k" by (simp add: less_mult_imp_div_less mult.commute)
  have "8 * (n div 8) + n mod 8 = n" by simp
  with n k show "bit (le_word (le_bytes k w) :: 'a word) n = bit w n"
    by (simp add: bit_le_word le_bytes_def bit_simps)
qed

lemma bytes_word_bytes:
  "LENGTH('a::len) \<le> 8 * k \<Longrightarrow> bytes_word le (word_bytes le k w) = (w :: 'a word)"
  by (simp add: bytes_word_def word_bytes_def le_word_le_bytes)

lemma length_word_bytes: "length (word_bytes le n w) = n"
  by (simp add: word_bytes_def le_bytes_def)

lemma length_store_bytes:
  "off + length bs \<le> length buf \<Longrightarrow> length (store_bytes buf off bs) = length buf"
  by (simp add: store_bytes_def)

lemma take_drop_store_bytes:
  "off + length bs \<le> length buf \<Longrightarrow> take (length bs) (drop off (store_bytes buf off bs)) = bs"
  by (simp add: store_bytes_def)

lemma nth_store_bytes_other:
  "off + length bs \<le> length buf \<Longrightarrow> j < off \<or> off + length bs \<le> j \<Longrightarrow>
   store_bytes buf off bs ! j = buf ! j"
  by (auto simp: store_bytes_def nth_append)

lemma load_u32_store:
  "off + 4 \<le> length buf \<Longrightarrow> load_u32 le (store_bytes buf off (word_bytes le 4 w)) off = w"
  using take_drop_store_bytes [of off "word_bytes le 4 w" buf]
  by (simp add: load_u32_def length_word_bytes bytes_word_bytes)

lemma load_u64_store:
  "off + 8 \<le> length buf \<Longrightarrow> load_u64 le (store_bytes buf off (word_bytes le 8 w)) off = w"
  using take_drop_store_bytes [of off "word_bytes le 8 w" buf]
  by (simp add: load_u64_def length_word_bytes bytes_word_bytes)

lemma offset_check:
  fixes off :: "64 word"
  assumes "n \<le> SIZE_MAX" "k < 16"
  shows "(unat off > SIZE_MAX - k \<or> unat (off + of_nat k) > n) \<longleftrightarrow> unat off + k > n"
proof (cases "unat off > SIZE_MAX - k")
  case True
  with assms show ?thesis by (simp add: SIZE_MAX_def)
next
  case False
  with assms(2) have "unat off + k < 2 ^ 64" by (simp add: SIZE_MAX_def)
  then have "unat (off + of_nat k) = unat off + k"
    using assms(2) by (simp add: unat_word_ariths unat_of_nat)
  with False show ?thesis by simp
qed

lemma unat_drop_bit_32: "unat (drop_bit 32 (info :: 64 word)) < 2 ^ 32"
  unfolding unat_drop_bit_eq
  using unsigned_less [of info, where ?'a = nat]
  by (simp add: drop_bit_eq_div less_mult_imp_div_less)

lemma unat_r_sym_of: "unat (r_sym_of info) = unat (drop_bit 32 info)"
  using unat_drop_bit_32 [of info] by (simp add: r_sym_of_def unsigned_ucast_eq take_bit_eq_mod unsigned_take_bit_eq)

text \<open>
  C4. For the relocation entry \<open>i\<close> of a relocation section, with the symbol index
  \<^verbatim>\<open>r_info >> 32\<close>, the type \<^verbatim>\<open>r_info & 0xffffffff\<close> and \<open>v\<close> the symbol's value plus
  the addend: a 32-bit relocation with a symbol of the table and a write inside the section
  succeeds and leaves the low 32 bits of \<open>v\<close> at the offset, a 64-bit one all of \<open>v\<close>, the
  length and every other byte of the section unchanged; a 32-bit or 64-bit relocation whose
  symbol index is outside the table or whose write would end past the section fails with an
  ELF-format error and leaves the section as it is, as does a relocation of any other type
  but \<^verbatim>\<open>R_X86_64_NONE\<close>, which succeeds and changes nothing.
\<close>

theorem apply_relocation_writes:
  assumes "i < length rela_section" and "length section \<le> SIZE_MAX"
  shows
    "(let reloc = rela_section ! i;
          type = r_type_of (r_info reloc);
          sym = unat (drop_bit 32 (r_info reloc));
          off = unat (r_offset reloc);
          v = st_value (symtab ! sym) + r_addend reloc;
          res = apply_relocation le section rela_section symtab i
      in (type = R_X86_64_32 \<and> sym < length symtab \<and> off + 4 \<le> length section \<longrightarrow>
            (\<exists>section'. res = Some (None, section') \<and> length section' = length section \<and>
               load_u32 le section' off = ucast v \<and>
               (\<forall>j. j < off \<or> off + 4 \<le> j \<longrightarrow> section' ! j = section ! j))) \<and>
         (type = R_X86_64_64 \<and> sym < length symtab \<and> off + 8 \<le> length section \<longrightarrow>
            (\<exists>section'. res = Some (None, section') \<and> length section' = length section \<and>
               load_u64 le section' off = v \<and>
               (\<forall>j. j < off \<or> off + 8 \<le> j \<longrightarrow> section' ! j = section ! j))) \<and>
         (type = R_X86_64_32 \<and> (length symtab \<le> sym \<or> length section < off + 4) \<longrightarrow>
            (\<exists>m. res = Some (Some (Error DRGN_ERROR_ELF_FORMAT m), section))) \<and>
         (type = R_X86_64_64 \<and> (length symtab \<le> sym \<or> length section < off + 8) \<longrightarrow>
            (\<exists>m. res = Some (Some (Error DRGN_ERROR_ELF_FORMAT m), section))) \<and>
         (type \<notin> {R_X86_64_NONE, R_X86_64_32, R_X86_64_64} \<longrightarrow>
            (\<exists>m. res = Some (Some (Error DRGN_ERROR_ELF_FORMAT m), section))) \<and>
         (type = R_X86_64_NONE \<longrightarrow> res = Some (None, section)))"
proof -
  have c4: "(unat (r_offset (rela_section ! i)) > SIZE_MAX - 4 \<or>
             unat (r_offset (rela_section ! i) + 4) > length section) \<longleftrightarrow>
            unat (r_offset (rela_section ! i)) + 4 > length section"
    using offset_check [of "length section" 4 "r_offset (rela_section ! i)"] assms(2) by simp
  have c8: "(unat (r_offset (rela_section ! i)) > SIZE_MAX - 8 \<or>
             unat (r_offset (rela_section ! i) + 8) > length section) \<longleftrightarrow>
            unat (r_offset (rela_section ! i)) + 8 > length section"
    using offset_check [of "length section" 8 "r_offset (rela_section ! i)"] assms(2) by simp
  show ?thesis
    using assms(1)
    unfolding Let_def apply_relocation_def c4 c8 unat_r_sym_of
    by (auto simp: R_X86_64_NONE_def R_X86_64_32_def R_X86_64_64_def
        invalid_relocation_symbol_def invalid_relocation_offset_def drgn_error_create_def
        drgn_error_format_def length_store_bytes length_word_bytes load_u32_store
        load_u64_store nth_store_bytes_other)
qed

theorem apply_relocation_writes_witness:
  "(0::nat) < length [\<lparr>r_offset = 2, r_info = 0x10000000A, r_addend = 0x10\<rparr>] \<and>
   length (replicate 8 (0::8 word)) \<le> SIZE_MAX \<and>
   r_type_of 0x10000000A = R_X86_64_32 \<and>
   (\<exists>section'.
      apply_relocation True (replicate 8 0)
        [\<lparr>r_offset = 2, r_info = 0x10000000A, r_addend = 0x10\<rparr>]
        [\<lparr>st_value = 0\<rparr>, \<lparr>st_value = 0x1122334455667788\<rparr>] 0 = Some (None, section') \<and>
      length section' = 8 \<and> load_u32 True section' 2 = 0x55667798)"
proof -
  have t: "r_type_of 0x10000000A = R_X86_64_32"
    by (simp add: r_type_of_def R_X86_64_32_def)
  have s: "unat (drop_bit 32 (0x10000000A :: 64 word)) = 1"
    by (simp add: drop_bit_eq_div unat_div)
  have v: "(1234605616436508568 :: 32 word) = 1432778648"
    by simp
  show ?thesis
    using apply_relocation_writes [of 0 "[\<lparr>r_offset = 2, r_info = 0x10000000A, r_addend = 0x10\<rparr>]"
        "replicate 8 0" "[\<lparr>st_value = 0\<rparr>, \<lparr>st_value = 0x1122334455667788\<rparr>]" True]
    by (auto simp: Let_def t s v SIZE_MAX_def)
qed

subsection \<open>Requesting a stack trace\<close>

lemma live_not_kernel:
  fixes x :: "32 word"
  assumes "x AND DRGN_PROGRAM_IS_LIVE \<noteq> 0" "x AND DRGN_PROGRAM_IS_LINUX_KERNEL = 0"
  shows "x AND (DRGN_PROGRAM_IS_LINUX_KERNEL OR DRGN_PROGRAM_IS_LIVE) = DRGN_PROGRAM_IS_LIVE"
proof -
  have b1: "bit x 1"
    using assms(1) and_exp_eq_0_iff_not_bit [of x 1] by (auto simp: DRGN_PROGRAM_IS_LIVE_def)
  have b0: "\<not> bit x 0"
    using assms(2) and_exp_eq_0_iff_not_bit [of x 0]
    by (auto simp: DRGN_PROGRAM_IS_LINUX_KERNEL_def)
  have m: "(3 :: 32 word) = mask 2" by (simp add: mask_eq_exp_minus_1)
  have p: "(2 :: 32 word) = push_bit 1 1" by simp
  have "x AND 3 = 2"
    unfolding m p
  proof (rule bit_eqI)
    fix n :: nat
    have "n < 2 \<Longrightarrow> n = 0 \<or> n = 1" by arith
    then show "bit (x AND mask 2) n = bit (push_bit 1 1 :: 32 word) n"
      using b0 b1 by (auto simp: bit_simps)
  qed
  then show ?thesis
    by (simp add: DRGN_PROGRAM_IS_LIVE_def DRGN_PROGRAM_IS_LINUX_KERNEL_def)
qed

text \<open>
  C9 (amended). For a program whose flags have the live bit and not the kernel bit, and
  for every thread id: \<^verbatim>\<open>drgn_program_stack_trace\<close> and \<^verbatim>\<open>drgn_get_stack_trace\<close> fail
  with an invalid-argument error and leave the program as it is, whatever the DWARF library
  would answer; so does \<^verbatim>\<open>drgn_object_stack_trace\<close>, unless the object is an integer
  whose value cannot be read: then it fails with the error of that read, the program
  again untouched.
\<close>

theorem stack_trace_live_process_rejected:
  assumes "prog_flags prog AND DRGN_PROGRAM_IS_LIVE \<noteq> 0"
    and "prog_flags prog AND DRGN_PROGRAM_IS_LINUX_KERNEL = 0"
  shows "(\<exists>m. drgn_program_stack_trace env prog tid =
               (Some (Error DRGN_ERROR_INVALID_ARGUMENT m), None, prog)) \<and>
         (\<exists>m. drgn_get_stack_trace env prog tid from_obj =
               (Some (Error DRGN_ERROR_INVALID_ARGUMENT m), None, prog)) \<and>
         (\<not> obj_is_int obj \<or> (\<exists>v. obj_read_integer obj = Inr v) \<longrightarrow>
            (\<exists>m. drgn_object_stack_trace env prog obj =
                  (Some (Error DRGN_ERROR_INVALID_ARGUMENT m), None, prog))) \<and>
         (\<forall>err. obj_is_int obj \<and> obj_read_integer obj = Inl err \<longrightarrow>
            drgn_object_stack_trace env prog obj = (Some err, None, prog))"
  using live_not_kernel [OF assms]
  by (auto simp: drgn_program_stack_trace_def drgn_object_stack_trace_def
      drgn_get_stack_trace_def drgn_error_create_def)

theorem stack_trace_live_process_rejected_witness:
  "prog_flags (live_program :: drgn_object drgn_program) AND DRGN_PROGRAM_IS_LIVE \<noteq> 0 \<and>
   prog_flags (live_program :: drgn_object drgn_program) AND DRGN_PROGRAM_IS_LINUX_KERNEL = 0 \<and>
   (\<exists>m. drgn_program_stack_trace willing_env (live_program :: drgn_object drgn_program) 1 =
         (Some (Error DRGN_ERROR_INVALID_ARGUMENT m), None, live_program)) \<and>
   (\<exists>m. drgn_object_stack_trace willing_env live_program
           \<lparr>obj_is_int = True, obj_read_integer = Inr 1\<rparr> =
         (Some (Error DRGN_ERROR_INVALID_ARGUMENT m), None, live_program))"
proof -
  have f: "prog_flags (live_program :: drgn_object drgn_program) AND DRGN_PROGRAM_IS_LIVE \<noteq> 0"
    "prog_flags (live_program :: drgn_object drgn_program) AND DRGN_PROGRAM_IS_LINUX_KERNEL = 0"
    by (simp_all add: live_program_def DRGN_PROGRAM_IS_LIVE_def DRGN_PROGRAM_IS_LINUX_KERNEL_def)
  show ?thesis
    using f stack_trace_live_process_rejected
      [OF f, of willing_env 1 None "\<lparr>obj_is_int = True, obj_read_integer = Inr 1\<rparr>"]
    by simp
qed

text \<open>
  C9 as stated fails for \<^verbatim>\<open>drgn_object_stack_trace\<close> on an integer object whose value
  cannot be read: the error returned is the one of the read, here a fault, and not an
  invalid-argument error.
\<close>

theorem drgn_object_stack_trace_read_error_counterexample:
  "prog_flags (live_program :: drgn_object drgn_program) AND
     (DRGN_PROGRAM_IS_LINUX_KERNEL OR DRGN_PROGRAM_IS_LIVE) = DRGN_PROGRAM_IS_LIVE \<and>
   drgn_object_stack_trace willing_env live_program
     \<lparr>obj_is_int = True,
      obj_read_integer = Inl (Error DRGN_ERROR_FAULT ''could not read memory'')\<rparr> =
     (Some (Error DRGN_ERROR_FAULT ''could not read memory''), None, live_program) \<and>
   error_code (Error DRGN_ERROR_FAULT ''could not read memory'') \<noteq>
     Some DRGN_ERROR_INVALID_ARGUMENT"
  by (simp add: drgn_object_stack_trace_def live_program_def DRGN_PROGRAM_IS_LIVE_def
      DRGN_PROGRAM_IS_LINUX_KERNEL_def)

subsection \<open>Frame symbols by index\<close>

text \<open>
  C10. The claim: an index equal to or greater than the number of parameters (variables)
  fails with an out-of-bounds error and reads nothing past the symbols. The test of the
  code is \<^verbatim>\<open>index > max\<close> with \<open>max\<close> the number of symbols, so the index equal to that
  number passes it and \<^verbatim>\<open>symbols[index]\<close> is read one element past the end; only from
  the next index on is the error returned. Here for a frame with one parameter and one
  variable, both evaluated.
\<close>

theorem symbol_by_index_one_past_end:
  "drgn_stack_frame_parameter_by_index scan mk_obj
     \<lparr>fs_variables = [v], fs_parameters = [p], fs_bias = 0, fs_flags = 3\<rparr> 1 name ret_obj = None \<and>
   drgn_stack_frame_variable_by_index scan mk_obj
     \<lparr>fs_variables = [v], fs_parameters = [p], fs_bias = 0, fs_flags = 3\<rparr> 1 name ret_obj = None \<and>
   drgn_stack_frame_parameter_by_index scan mk_obj
     \<lparr>fs_variables = [v], fs_parameters = [p], fs_bias = 0, fs_flags = 3\<rparr> 2 name ret_obj =
     Some (Some out_of_range,
           \<lparr>fs_variables = [v], fs_parameters = [p], fs_bias = 0, fs_flags = 3\<rparr>, name, ret_obj)"
  by (simp add: drgn_stack_frame_parameter_by_index_def drgn_stack_frame_variable_by_index_def
      drgn_stack_frame_parse_parameters_def drgn_stack_frame_parse_variables_def
      symbol_by_index_def DRGN_FRAME_STATE_PARAMS_EVALUATED_def
      DRGN_FRAME_STATE_SYMBOLS_EVALUATED_def)

subsection \<open>Walking a compilation unit\<close>








lemma index_cu_loop_numeral:
  "index_cu_loop (numeral k) hsh alloc cu st =
     (case walk_step hsh alloc cu st of
        Go_on st' \<Rightarrow> index_cu_loop (pred_numeral k) hsh alloc cu st'
      | Leave err st' \<Rightarrow> (Returned err, st')
      | No_result \<Rightarrow> (Stuck, st))"
  by (simp add: numeral_eq_Suc)

lemmas walk_defs =
  index_cu_def walk_step_def walk_index_def walk_next_def with_specification_def
  unit_of_def plain_die_def Let_def no_hash_def can_allocate_def
  index_die_def index_die_shard_def append_die_entry_def hash_pair_to_shard_def
  empty_index_def empty_shard_def SHARD_BITS_def
  DW_TAG_enumeration_type_def DW_TAG_compile_unit_def DW_TAG_enumerator_def
  TAG_MASK_def TAG_FLAG_DECLARATION_def TAG_FLAG_CHILDREN_def index_cu_loop_numeral





text \<open>
  The enumeration whose offset an enumerator is indexed under need not be its parent: the
  offset that the walk holds is reset only where a list of children at depth 2 ends. Here
  the enumeration \<open>E\<close> at the offset 12 has no children, and the enumerator \<open>A\<close> at the
  offset 14, a child of the structure \<open>S\<close> at the offset 13, is indexed under the offset
  12.
\<close>

lemma childless_enumeration_unit_calls:
  "fst (index_cu 7 no_hash can_allocate empty_index childless_enumeration_unit) =
     Returned None \<and>
   ws_calls (snd (index_cu 7 no_hash can_allocate empty_index childless_enumeration_unit)) =
     [\<lparr>ic_depth = 1, ic_die_offset = 12, ic_name = ''E'', ic_tag = DW_TAG_enumeration_type,
       ic_file_name_hash = 0, ic_offset = 12\<rparr>,
      \<lparr>ic_depth = 1, ic_die_offset = 13, ic_name = ''S'', ic_tag = DW_TAG_structure_type,
       ic_file_name_hash = 0, ic_offset = 13\<rparr>,
      \<lparr>ic_depth = 2, ic_die_offset = 14, ic_name = ''A'', ic_tag = DW_TAG_enumerator,
       ic_file_name_hash = 0, ic_offset = 12\<rparr>]"
  by (simp add: childless_enumeration_unit_def walk_defs DW_TAG_structure_type_def)

subsection \<open>The chains of a shard\<close>

lemma chain_from_is_chain: "chain_from entries i = Some c \<longleftrightarrow> is_chain entries i c"
proof (induction c arbitrary: i)
  case Nil
  show ?case
    by (subst chain_from.simps) (auto split: option.splits simp: Option.bind_eq_Some_conv)
next
  case (Cons j rest)
  show ?case
    by (subst chain_from.simps)
       (auto split: option.splits simp: Option.bind_eq_Some_conv Cons.IH)
qed

lemma is_chain_bounds:
  "entries_wf entries n \<Longrightarrow> is_chain entries i c \<Longrightarrow> i < n \<Longrightarrow> n \<le> SIZE_MAX \<Longrightarrow>
   (\<forall>j \<in> set c. i \<le> j \<and> j < n) \<and> distinct c \<and> c \<noteq> []"
proof (induction c arbitrary: i)
  case Nil
  then show ?case
    by (auto simp: entries_wf_def split: option.splits)
next
  case (Cons j rest)
  from Cons.prems obtain entry where e: "entries i = Some entry" "j = i" "i \<noteq> SIZE_MAX"
      "is_chain entries (de_next entry) rest"
    by (auto split: option.splits)
  from Cons.prems(1,3) e(1)
  consider "de_next entry = SIZE_MAX" | "i < de_next entry" "de_next entry < n"
    by (fastforce simp: entries_wf_def)
  then show ?case
  proof cases
    case 1
    with e(4) have "rest = []" by (cases rest) auto
    with e Cons.prems show ?thesis by simp
  next
    case 2
    from Cons.IH [OF Cons.prems(1) e(4) 2(2) Cons.prems(4)] 2 e show ?thesis by fastforce
  qed
qed

lemma is_chain_exists:
  "entries_wf entries n \<Longrightarrow> i < n \<Longrightarrow> n \<le> SIZE_MAX \<Longrightarrow> \<exists>c. is_chain entries i c"
proof (induction "n - i" arbitrary: i rule: less_induct)
  case less
  from less.prems obtain entry where e: "entries i = Some entry"
    by (fastforce simp: entries_wf_def split: option.splits)
  from less.prems e
  consider "de_next entry = SIZE_MAX" | "i < de_next entry" "de_next entry < n"
    by (fastforce simp: entries_wf_def)
  then show ?case
  proof cases
    case 1
    with e less.prems have "is_chain entries i [i]" by simp
    then show ?thesis ..
  next
    case 2
    then have "n - de_next entry < n - i" by simp
    from less.hyps [OF this less.prems(1) 2(2) less.prems(3)]
    obtain rest where "is_chain entries (de_next entry) rest" ..
    with e less.prems have "is_chain entries i (i # rest)" by simp
    then show ?thesis ..
  qed
qed

lemma chain_walk_is_chain:
  "is_chain entries i c \<Longrightarrow> c \<noteq> [] \<Longrightarrow>
   chain_walk entries tag h i =
     (if Some (tag, h) \<in> key_at entries ` set c then Some Found else Some (Tail (last c)))"
proof (induction c arbitrary: i)
  case Nil
  then show ?case by simp
next
  case (Cons j rest)
  from Cons.prems obtain entry where e: "entries i = Some entry" "j = i" "i \<noteq> SIZE_MAX"
      "is_chain entries (de_next entry) rest"
    by (auto split: option.splits)
  show ?case
  proof (cases "de_next entry = SIZE_MAX")
    case True
    with e(4) have "rest = []" by (cases rest) auto
    with e True show ?thesis
      by (subst chain_walk.simps) (auto simp: key_at_def)
  next
    case False
    with e(4) have ne: "rest \<noteq> []" by (cases rest) auto
    from Cons.IH [OF e(4) ne] e False ne show ?thesis
      by (subst chain_walk.simps) (auto simp: key_at_def)
  qed
qed

lemma is_chain_append:
  "is_chain entries i c \<Longrightarrow> c \<noteq> [] \<Longrightarrow> distinct c \<Longrightarrow> n \<notin> set c \<Longrightarrow> n \<noteq> SIZE_MAX \<Longrightarrow>
   entries (last c) = Some tail \<Longrightarrow> de_next new = SIZE_MAX \<Longrightarrow>
   is_chain ((entries(n \<mapsto> new))(last c \<mapsto> tail\<lparr>de_next := n\<rparr>)) i (c @ [n])"
proof (induction c arbitrary: i)
  case Nil
  then show ?case by simp
next
  case (Cons j rest)
  from Cons.prems obtain entry where e: "entries i = Some entry" "j = i" "i \<noteq> SIZE_MAX"
      "is_chain entries (de_next entry) rest"
    by (auto split: option.splits)
  show ?case
  proof (cases rest)
    case Nil
    with Cons.prems e show ?thesis by auto
  next
    case (Cons k rest')
    with Cons.prems e(2) have l: "last (j # rest) = last rest" "last rest \<noteq> i" "n \<noteq> i"
      and r: "rest \<noteq> []" "distinct rest" "n \<notin> set rest" "entries (last rest) = Some tail"
      by auto
    define E where "E = (entries(n \<mapsto> new))(last rest \<mapsto> tail\<lparr>de_next := n\<rparr>)"
    from Cons.IH [OF e(4) r(1,2,3) Cons.prems(5) r(4) Cons.prems(7)]
    have H: "is_chain E (de_next entry) (rest @ [n])"
      unfolding E_def .
    from e l(2,3) have "E i = Some entry"
      by (simp add: E_def)
    with H e have "is_chain E i ((j # rest) @ [n])"
      by simp
    then show ?thesis
      unfolding l(1) E_def .
  qed
qed

lemma entries_wf_append:
  "entries_wf entries n \<Longrightarrow> de_next new = SIZE_MAX \<Longrightarrow> entries_wf (entries(n \<mapsto> new)) (Suc n)"
  by (auto simp: entries_wf_def less_Suc_eq split: option.splits)

lemma entries_wf_link:
  "entries_wf entries n \<Longrightarrow> de_next new = SIZE_MAX \<Longrightarrow> t < n \<Longrightarrow>
   entries_wf ((entries(n \<mapsto> new))(t \<mapsto> tail\<lparr>de_next := n\<rparr>)) (Suc n)"
  by (auto simp: entries_wf_def less_Suc_eq split: option.splits)

lemma key_at_link:
  "entries t = Some tail \<Longrightarrow> i \<noteq> n \<Longrightarrow>
   key_at ((entries(n \<mapsto> new))(t \<mapsto> tail\<lparr>de_next := n\<rparr>)) i = key_at entries i"
  by (simp add: key_at_def)

lemma definition_at_link:
  "entries t = Some tail \<Longrightarrow> i \<noteq> n \<Longrightarrow>
   definition_at ((entries(n \<mapsto> new))(t \<mapsto> tail\<lparr>de_next := n\<rparr>)) i = definition_at entries i"
  by (simp add: definition_at_def)

lemma index_die_shard_chain:
  assumes wf: "shard_wf shard" and room: "sh_num_entries shard < SIZE_MAX"
  shows "\<exists>c err shard'.
     chain_of shard name = Some c \<and>
     index_die_shard resize_ok insert_ok shard name tag h file offset = Some (err, shard') \<and>
     shard_wf shard' \<and>
     (if Some (tag, h) \<in> key_at (sh_entries shard) ` set c then err = None \<and> shard' = shard
      else
        (err = None \<longleftrightarrow>
           (sh_num_entries shard < sh_entries_capacity shard \<or> resize_ok) \<and>
           (sh_map shard name \<noteq> None \<or> insert_ok)) \<and>
        (if err = None then
        chain_of shard' name = Some (c @ [sh_num_entries shard]) \<and>
        sh_entries shard' (sh_num_entries shard) =
          Some \<lparr>de_tag = tag, de_file_name_hash = h, de_next = SIZE_MAX, de_file = file,
                de_offset = offset\<rparr> \<and>
        sh_num_entries shard' = sh_num_entries shard + 1 \<and>
        (\<forall>i < sh_num_entries shard.
           definition_at (sh_entries shard') i = definition_at (sh_entries shard) i) \<and>
        (distinct (map (key_at (sh_entries shard)) c) \<longrightarrow>
         distinct (map (key_at (sh_entries shard')) (c @ [sh_num_entries shard])))
      else err = Some drgn_enomem \<and> chain_of shard' name = Some c \<and>
        (\<forall>i < sh_num_entries shard. sh_entries shard' i = sh_entries shard i)))"
proof -
  define n where "n = sh_num_entries shard"
  define new where "new = \<lparr>de_tag = tag, de_file_name_hash = h, de_next = SIZE_MAX,
                            de_file = file, de_offset = offset\<rparr>"
  have ewf: "entries_wf (sh_entries shard) n"
    and mwf: "\<And>name v. sh_map shard name = Some v \<Longrightarrow> v < n"
    using wf by (auto simp: shard_wf_def n_def)
  have nx: "de_next new = SIZE_MAX" by (simp add: new_def)
  show ?thesis
  proof (cases "sh_map shard name")
    case None
    show ?thesis
    proof (cases "sh_entries_capacity shard \<le> n \<and> \<not> resize_ok")
      case True
      with None wf show ?thesis
        by (auto simp: chain_of_def index_die_shard_def append_die_entry_def n_def)
    next
      case False
      define E where "E = (sh_entries shard)(n \<mapsto> new)"
      define shard' where "shard' = shard\<lparr>sh_entries := E, sh_num_entries := Suc n,
          sh_entries_capacity := (if sh_entries_capacity shard \<le> n
             then sh_entries_capacity shard * 2 else sh_entries_capacity shard)\<rparr>"
      have app: "append_die_entry resize_ok shard tag h file offset = Some shard'"
        using False
        by (simp add: append_die_entry_def n_def [symmetric] new_def [symmetric] shard'_def
              E_def)
      have co: "chain_of shard name = Some []"
        using None by (simp add: chain_of_def)
      have ewf': "entries_wf E (Suc n)"
        unfolding E_def by (rule entries_wf_append [OF ewf nx])
      have ne: "n \<noteq> SIZE_MAX" using room by (simp add: n_def)
      show ?thesis
      proof (cases insert_ok)
        case True
        define shard'' where "shard'' = shard'\<lparr>sh_map := (sh_map shard')(name \<mapsto> n)\<rparr>"
        have res: "index_die_shard resize_ok insert_ok shard name tag h file offset =
                     Some (None, shard'')"
          using None app True by (simp add: index_die_shard_def shard''_def shard'_def)
        have "is_chain E n [n]"
          using ne nx by (simp add: E_def)
        then have co': "chain_of shard'' name = Some ([] @ [n])"
          by (simp add: chain_of_def chain_from_is_chain shard''_def shard'_def)
        have wf': "shard_wf shard''"
          using ewf' mwf by (auto simp: shard_wf_def shard''_def shard'_def less_Suc_eq)
        have rest: "sh_entries shard'' n = Some new" "sh_num_entries shard'' = n + 1"
          "\<forall>i < n. definition_at (sh_entries shard'') i = definition_at (sh_entries shard) i"
          by (simp_all add: shard''_def shard'_def E_def definition_at_def)
        from co res co' wf' rest None False True show ?thesis
          by (auto simp: n_def [symmetric] new_def)
      next
        case no_insert: False
        have res: "index_die_shard resize_ok insert_ok shard name tag h file offset =
                     Some (Some drgn_enomem, shard')"
          using None app no_insert by (simp add: index_die_shard_def)
        have co': "chain_of shard' name = Some []"
          using None by (simp add: chain_of_def shard'_def)
        have wf': "shard_wf shard'"
          using ewf' mwf by (auto simp: shard_wf_def shard'_def less_Suc_eq)
        have rest: "\<forall>i < n. sh_entries shard' i = sh_entries shard i"
          by (simp add: shard'_def E_def)
        from co res co' wf' rest None no_insert show ?thesis
          by (simp add: n_def [symmetric])
      qed
    qed
  next
    case (Some v)
    then have v: "v < n" by (rule mwf)
    from is_chain_exists [OF ewf v] room obtain c where c: "is_chain (sh_entries shard) v c"
      by (auto simp: n_def)
    from is_chain_bounds [OF ewf c v] room
    have b: "\<forall>j \<in> set c. v \<le> j \<and> j < n" "distinct c" "c \<noteq> []"
      by (auto simp: n_def)
    have co: "chain_of shard name = Some c"
      using Some c by (simp add: chain_of_def chain_from_is_chain)
    note w = chain_walk_is_chain [OF c b(3), of tag h]
    show ?thesis
    proof (cases "Some (tag, h) \<in> key_at (sh_entries shard) ` set c")
      case True
      with Some w co wf show ?thesis
        by (simp add: index_die_shard_def)
    next
      case absent: False
      show ?thesis
      proof (cases "sh_entries_capacity shard \<le> n \<and> \<not> resize_ok")
        case True
        with Some w co wf absent show ?thesis
          by (auto simp: index_die_shard_def append_die_entry_def n_def)
      next
        case False
        from b have t: "last c < n" "n \<notin> set c" by auto
        with ewf obtain tail where tail: "sh_entries shard (last c) = Some tail"
          by (fastforce simp: entries_wf_def split: option.splits)
        define E where "E = ((sh_entries shard)(n \<mapsto> new))(last c \<mapsto> tail\<lparr>de_next := n\<rparr>)"
        define shard' where "shard' = shard\<lparr>sh_entries := E, sh_num_entries := Suc n,
            sh_entries_capacity := (if sh_entries_capacity shard \<le> n
               then sh_entries_capacity shard * 2 else sh_entries_capacity shard)\<rparr>"
        have res: "index_die_shard resize_ok insert_ok shard name tag h file offset =
                     Some (None, shard')"
          using Some w absent False tail t(1)
          by (simp add: index_die_shard_def append_die_entry_def n_def [symmetric]
                new_def [symmetric] shard'_def E_def)
        have ne: "n \<noteq> SIZE_MAX" using room by (simp add: n_def)
        have "is_chain E v (c @ [n])"
          unfolding E_def by (rule is_chain_append [OF c b(3) b(2) t(2) ne tail nx])
        then have co': "chain_of shard' name = Some (c @ [n])"
          using Some by (simp add: chain_of_def chain_from_is_chain shard'_def)
        have wf': "shard_wf shard'"
          using entries_wf_link [OF ewf nx t(1), of tail] mwf
          by (auto simp: shard_wf_def shard'_def E_def less_Suc_eq dest!: mwf)
        have En: "E n = Some new"
          using t(1) by (simp add: E_def)
        have defs: "\<forall>i < n. definition_at E i = definition_at (sh_entries shard) i"
          using definition_at_link [of "sh_entries shard" "last c" tail _ n new] tail
          by (simp add: E_def)
        have keys: "map (key_at E) c = map (key_at (sh_entries shard)) c"
        proof (rule map_cong [OF refl])
          fix i assume "i \<in> set c"
          with t(2) have "i \<noteq> n" by auto
          with tail show "key_at E i = key_at (sh_entries shard) i"
            unfolding E_def by (rule key_at_link)
        qed
        have kn: "key_at E n = Some (tag, h)"
          using En by (simp add: key_at_def new_def)
        have dist: "distinct (map (key_at (sh_entries shard)) c) \<longrightarrow>
                    distinct (map (key_at E) (c @ [n]))"
        proof
          assume "distinct (map (key_at (sh_entries shard)) c)"
          with absent show "distinct (map (key_at E) (c @ [n]))"
            by (simp add: keys kn)
        qed
        from co res wf' absent co' En defs dist Some False show ?thesis
          by (auto simp: n_def [symmetric] shard'_def new_def)
      qed
    qed
  qed
qed

lemma chain_walk_variable: "chain_walk (sh_entries variable_shard) 0x16 0 0 = Some (Tail 0)"
  by (subst chain_walk.simps) (simp add: variable_shard_def)

lemma index_die_typedef:
  "di_shards dindex 0 = variable_shard \<Longrightarrow>
   index_die no_hash True True dindex ''foo'' 0x16 0 20 12 =
     Some (None, dindex\<lparr>di_shards := (di_shards dindex)(0 := typedef_shard)\<rparr>)"
  apply (simp add: index_die_def index_die_shard_def hash_pair_to_shard_def SHARD_BITS_def
           no_hash_def Let_def variable_shard_def)
  apply (subst chain_walk.simps)
  apply (auto simp: append_die_entry_def typedef_shard_def fun_eq_iff SIZE_MAX_def)
  done

lemma empty_shard_wf: "shard_wf empty_shard"
  by (simp add: shard_wf_def entries_wf_def empty_shard_def)

text \<open>
  The calls of \<^verbatim>\<open>index_die\<close> on a well-formed shard. Take a call for a name whose
  shard is in the state that \<^verbatim>\<open>drgn_dwarf_index_create\<close> sets up and that these calls
  keep (\<open>shard_wf\<close>), with fewer than \<^verbatim>\<open>SIZE_MAX\<close> entries. The chain \<open>c\<close> of the name
  is then defined and the call returns, leaving the other shards as they are and the shard
  well formed. If an entry of the chain has the tag and the file name hash, the call
  succeeds and the index is unchanged. Otherwise the call succeeds exactly when its
  allocations do. If it succeeds, the chain of the name is the old chain with the new
  entry, written at the end of the array, behind it; the entries that were there keep their
  tag, hash, file and offset; and if no two entries of the old chain had the same tag and
  hash, then no two of the new chain have. If it fails, it fails for want of memory, and
  the chain of the name and the entries that were there are unchanged.
\<close>

lemma index_die_chain:
  assumes "shard_wf (di_shards dindex (hash_pair_to_shard (hsh name)))"
    and "sh_num_entries (di_shards dindex (hash_pair_to_shard (hsh name))) < SIZE_MAX"
  shows "\<exists>c err dindex'.
     (let k = hash_pair_to_shard (hsh name);
          shard = di_shards dindex k;
          shard' = di_shards dindex' k;
          n = sh_num_entries shard
      in chain_of shard name = Some c \<and>
         index_die hsh resize_ok insert_ok dindex name tag h file offset = Some (err, dindex') \<and>
         shard_wf shard' \<and>
         (\<forall>j. j \<noteq> k \<longrightarrow> di_shards dindex' j = di_shards dindex j) \<and>
         (if Some (tag, h) \<in> key_at (sh_entries shard) ` set c then err = None \<and> dindex' = dindex
          else
            (err = None \<longleftrightarrow>
               (n < sh_entries_capacity shard \<or> resize_ok) \<and>
               (sh_map shard name \<noteq> None \<or> insert_ok)) \<and>
            (if err = None then
            chain_of shard' name = Some (c @ [n]) \<and>
            sh_entries shard' n =
              Some \<lparr>de_tag = tag, de_file_name_hash = h, de_next = SIZE_MAX, de_file = file,
                    de_offset = offset\<rparr> \<and>
            sh_num_entries shard' = n + 1 \<and>
            (\<forall>i < n. definition_at (sh_entries shard') i = definition_at (sh_entries shard) i) \<and>
            (distinct (map (key_at (sh_entries shard)) c) \<longrightarrow>
             distinct (map (key_at (sh_entries shard')) (c @ [n])))
          else err = Some drgn_enomem \<and> chain_of shard' name = Some c \<and>
            (\<forall>i < n. sh_entries shard' i = sh_entries shard i))))"
proof -
  from index_die_shard_chain [OF assms, of name resize_ok insert_ok tag h "file" offset]
  obtain c err shard' where
    r: "chain_of (di_shards dindex (hash_pair_to_shard (hsh name))) name = Some c"
      "index_die_shard resize_ok insert_ok (di_shards dindex (hash_pair_to_shard (hsh name)))
         name tag h file offset = Some (err, shard')"
      "shard_wf shard'"
    and b: "if Some (tag, h) \<in>
                 key_at (sh_entries (di_shards dindex (hash_pair_to_shard (hsh name)))) ` set c
      then err = None \<and> shard' = di_shards dindex (hash_pair_to_shard (hsh name))
      else
        (err = None \<longleftrightarrow>
           (sh_num_entries (di_shards dindex (hash_pair_to_shard (hsh name)))
              < sh_entries_capacity (di_shards dindex (hash_pair_to_shard (hsh name))) \<or>
            resize_ok) \<and>
           (sh_map (di_shards dindex (hash_pair_to_shard (hsh name))) name \<noteq> None \<or>
            insert_ok)) \<and>
        (if err = None then
        chain_of shard' name =
          Some (c @ [sh_num_entries (di_shards dindex (hash_pair_to_shard (hsh name)))]) \<and>
        sh_entries shard' (sh_num_entries (di_shards dindex (hash_pair_to_shard (hsh name)))) =
          Some \<lparr>de_tag = tag, de_file_name_hash = h, de_next = SIZE_MAX, de_file = file,
                de_offset = offset\<rparr> \<and>
        sh_num_entries shard' =
          sh_num_entries (di_shards dindex (hash_pair_to_shard (hsh name))) + 1 \<and>
        (\<forall>i < sh_num_entries (di_shards dindex (hash_pair_to_shard (hsh name))).
           definition_at (sh_entries shard') i =
           definition_at (sh_entries (di_shards dindex (hash_pair_to_shard (hsh name)))) i) \<and>
        (distinct (map (key_at (sh_entries (di_shards dindex (hash_pair_to_shard (hsh name)))))
                     c) \<longrightarrow>
         distinct (map (key_at (sh_entries shard'))
           (c @ [sh_num_entries (di_shards dindex (hash_pair_to_shard (hsh name)))])))
      else err = Some drgn_enomem \<and> chain_of shard' name = Some c \<and>
        (\<forall>i < sh_num_entries (di_shards dindex (hash_pair_to_shard (hsh name))).
           sh_entries shard' i =
           sh_entries (di_shards dindex (hash_pair_to_shard (hsh name))) i))"
    by blast
  define dindex' where
    "dindex' = dindex\<lparr>di_shards := (di_shards dindex)(hash_pair_to_shard (hsh name) := shard')\<rparr>"
  have i: "index_die hsh resize_ok insert_ok dindex name tag h file offset = Some (err, dindex')"
    using r(2) by (simp add: index_die_def dindex'_def)
  have s: "di_shards dindex' (hash_pair_to_shard (hsh name)) = shard'"
    "\<forall>j. j \<noteq> hash_pair_to_shard (hsh name) \<longrightarrow> di_shards dindex' j = di_shards dindex j"
    by (simp_all add: dindex'_def)
  have same: "shard' = di_shards dindex (hash_pair_to_shard (hsh name)) \<Longrightarrow> dindex' = dindex"
    by (simp add: dindex'_def)
  show ?thesis
    apply (rule exI [of _ c], rule exI [of _ err], rule exI [of _ dindex'])
    unfolding Let_def s(1)
    apply (intro conjI r(1) i r(3) s(2))
    apply (cases "Some (tag, h) \<in>
                 key_at (sh_entries (di_shards dindex (hash_pair_to_shard (hsh name)))) ` set c")
    subgoal using b same by simp
    subgoal premises p by (subst if_not_P [OF p]) (rule b [unfolded if_not_P [OF p]])
    done
qed

text \<open>
  At the index that holds the variable \<open>foo\<close>, for a type \<open>foo\<close>: the chain \<open>[0]\<close> of the
  name becomes \<open>[0, 1]\<close>.
\<close>

lemma index_die_chain_example:
  "shard_wf (di_shards variable_index (hash_pair_to_shard (no_hash ''foo''))) \<and>
   sh_num_entries (di_shards variable_index (hash_pair_to_shard (no_hash ''foo''))) < SIZE_MAX \<and>
   chain_of (di_shards variable_index 0) ''foo'' = Some [0] \<and>
   (\<exists>dindex'.
      index_die no_hash True True variable_index ''foo'' 0x16 0 20 12 = Some (None, dindex') \<and>
      chain_of (di_shards dindex' 0) ''foo'' = Some [0, 1] \<and>
      shard_wf (di_shards dindex' 0))"
proof -
  have k: "hash_pair_to_shard (no_hash ''foo'') = 0"
    by (simp add: hash_pair_to_shard_def no_hash_def)
  have s: "di_shards variable_index 0 = variable_shard"
    by (simp add: variable_index_def)
  have wf: "shard_wf (di_shards variable_index (hash_pair_to_shard (no_hash ''foo'')))"
    unfolding k s by (auto simp: shard_wf_def entries_wf_def variable_shard_def split: if_splits)
  have room: "sh_num_entries (di_shards variable_index (hash_pair_to_shard (no_hash ''foo'')))
                < SIZE_MAX"
    unfolding k s by (simp add: variable_shard_def SIZE_MAX_def)
  have c0: "chain_of variable_shard ''foo'' = Some [0]"
    by (simp add: chain_of_def chain_from_is_chain variable_shard_def SIZE_MAX_def)
  have absent: "Some (0x16, 0) \<notin> key_at (sh_entries variable_shard) ` set [0]"
    by (simp add: key_at_def variable_shard_def)
  have n: "sh_num_entries variable_shard = 1"
    by (simp add: variable_shard_def)
  from index_die_chain [of variable_index no_hash "''foo''" True True "0x16" 0 20 12,
      OF wf room]
  obtain c err dindex' where
    "chain_of variable_shard ''foo'' = Some c"
    "index_die no_hash True True variable_index ''foo'' 0x16 0 20 12 = Some (err, dindex')"
    "shard_wf (di_shards dindex' 0)"
    "if Some (0x16, 0) \<in> key_at (sh_entries variable_shard) ` set c
     then err = None \<and> dindex' = variable_index
     else if err = None then chain_of (di_shards dindex' 0) ''foo'' = Some (c @ [1])
     else err = Some drgn_enomem"
    unfolding Let_def k s n by (auto split: if_splits)
  with c0 absent index_die_typedef [OF s] wf room s show ?thesis
    by (auto split: if_splits)
qed

subsection \<open>A failed update\<close>

lemma first_update:
  "drgn_dwarf_index_update 4 no_hash can_allocate
     (drgn_dwarf_index_open empty_index 10 (file_with [variable_unit])) =
   Some (None, variable_index)"
  by (simp add: drgn_dwarf_index_update_def drgn_dwarf_index_open_def file_with_def
     file_of_def variable_unit_def walk_defs variable_index_def variable_shard_def
     DW_TAG_variable_def)

lemma unindex_shards_all:
  "(\<forall>i < n. unindex_shard files (shards i) = Some (f i)) \<Longrightarrow>
   unindex_shards files shards n = Some (\<lambda>i. if i < n then f i else shards i)"
proof (induction n)
  case 0
  show ?case by simp
next
  case (Suc n)
  then have "unindex_shards files shards n = Some (\<lambda>i. if i < n then f i else shards i)"
    by simp
  with Suc.prems show ?case
    by (auto simp: fun_eq_iff less_Suc_eq)
qed

lemmas walk_defs2 =
  index_cu_def walk_step_def walk_index_def walk_next_def with_specification_def
  unit_of_def plain_die_def Let_def can_allocate_def
  DW_TAG_enumeration_type_def DW_TAG_compile_unit_def DW_TAG_enumerator_def
  TAG_MASK_def TAG_FLAG_DECLARATION_def TAG_FLAG_CHILDREN_def index_cu_loop_numeral

lemma second_index:
  "index_cus 4 no_hash can_allocate (opened_index\<lparr>di_opened := []\<rparr>) [typedef_unit] =
     Some (Some truncated,
           opened_index\<lparr>di_opened := [], di_shards := (\<lambda>i. empty_shard)(0 := typedef_shard)\<rparr>)"
  by (simp add: opened_index_def drgn_dwarf_index_open_def typedef_unit_def walk_defs2
        variable_index_def index_die_typedef)

lemma mark_failed_opened:
  "mark_failed [10 \<mapsto> file_with [variable_unit], 20 \<mapsto> file_with [typedef_unit]] [20] =
     failed_files"
  by (auto simp: mark_failed_def failed_files_def fun_eq_iff)

lemma unindex_empty_shard: "unindex_shard files empty_shard = Some empty_shard"
  by (simp add: unindex_shard_def empty_shard_def)

lemma unindex_typedef_shard: "unindex_shard failed_files typedef_shard = Some stale_shard"
  by (auto simp: unindex_shard_def typedef_shard_def stale_shard_def failed_files_def
        file_with_def numeral_2_eq_2 fun_eq_iff)

lemma unindex_second:
  "unindex_files
     (opened_index\<lparr>di_opened := [], di_shards := (\<lambda>i. empty_shard)(0 := typedef_shard)\<rparr>) [20] =
   Some (opened_index\<lparr>di_opened := [], di_files := failed_files,
           di_shards := (\<lambda>i. empty_shard)(0 := stale_shard)\<rparr>)"
proof -
  have "unindex_shards failed_files ((\<lambda>i. empty_shard)(0 := typedef_shard)) NUM_SHARDS =
          Some (\<lambda>i. if i < NUM_SHARDS
                      then (if i = 0 then stale_shard else empty_shard)
                      else ((\<lambda>i. empty_shard)(0 := typedef_shard)) i)"
    by (rule unindex_shards_all) (simp add: unindex_empty_shard unindex_typedef_shard)
  also have "(\<lambda>i. if i < NUM_SHARDS
                      then (if i = 0 then stale_shard else empty_shard)
                      else ((\<lambda>i. empty_shard)(0 := typedef_shard)) i) =
             (\<lambda>i. empty_shard)(0 := stale_shard)"
    by (auto simp: fun_eq_iff NUM_SHARDS_def)
  finally have u:
    "unindex_shards failed_files ((\<lambda>i. empty_shard)(0 := typedef_shard)) NUM_SHARDS =
       Some ((\<lambda>i. empty_shard)(0 := stale_shard))" .
  show ?thesis
    by (simp add: unindex_files_def opened_index_def drgn_dwarf_index_open_def
          variable_index_def mark_failed_opened u)
qed

lemma second_update:
  "drgn_dwarf_index_update 4 no_hash can_allocate opened_index =
     Some (Some truncated,
           free_files (opened_index\<lparr>di_opened := [], di_files := failed_files,
              di_shards := (\<lambda>i. empty_shard)(0 := stale_shard)\<rparr>) [20])"
proof -
  have o: "di_opened opened_index = [20]" "file_of (opened_index\<lparr>di_opened := []\<rparr>) 20 =
      file_with [typedef_unit]"
    by (simp_all add: opened_index_def drgn_dwarf_index_open_def variable_index_def
          file_of_def)
  show ?thesis
    by (simp add: drgn_dwarf_index_update_def o file_with_def [of "[typedef_unit]"]
          second_index unindex_second Let_def del: index_cus.simps)
qed

text \<open>
  C1 does not hold of the code. A first update indexes the file 10, whose unit defines the
  variable \<open>foo\<close>: the first shard has the one entry 0. The file 20 is opened and a second
  update fails on it: its unit defines the type \<open>foo\<close>, indexed as the entry 1 behind the
  entry 0, and is truncated after it. When the update returns, the shard has one entry
  again and the map sends \<open>foo\<close> to the entry 0, but \<open>de_next\<close> of the entry 0 is still 1:
  the lookup of \<open>foo\<close> returns the entry 0 and then the entry 1, which is past the end of
  the entries in use and names the file 20, a file that has been freed.
\<close>

theorem drgn_dwarf_index_update_stale_entry:
  "drgn_dwarf_index_update 4 no_hash can_allocate
      (drgn_dwarf_index_open empty_index 10 (file_with [variable_unit])) =
     Some (None, variable_index) \<and>
   (\<exists>dindex.
      drgn_dwarf_index_update 4 no_hash can_allocate
        (drgn_dwarf_index_open variable_index 20 (file_with [typedef_unit])) =
        Some (Some truncated, dindex) \<and>
      hash_pair_to_shard (no_hash ''foo'') = 0 \<and>
      sh_num_entries (di_shards dindex 0) = 1 \<and>
      sh_map (di_shards dindex 0) ''foo'' = Some 0 \<and>
      iterator_next (sh_entries (di_shards dindex 0)) [] 0 = Some (Inr (0, 1)) \<and>
      iterator_next (sh_entries (di_shards dindex 0)) [] 1 = Some (Inr (1, SIZE_MAX)) \<and>
      map_option de_file (sh_entries (di_shards dindex 0) 1) = Some 20 \<and>
      map_option df_freed (di_files dindex 20) = Some True)"
proof -
  have it: "iterator_next (sh_entries stale_shard) [] 0 = Some (Inr (0, 1))"
    "iterator_next (sh_entries stale_shard) [] 1 = Some (Inr (1, SIZE_MAX))"
    by (subst iterator_next.simps,
        simp add: stale_shard_def typedef_shard_def matches_tag_def SIZE_MAX_def)+
  have rest: "hash_pair_to_shard (no_hash ''foo'') = 0"
    "sh_num_entries stale_shard = 1" "sh_map stale_shard ''foo'' = Some 0"
    "map_option de_file (sh_entries stale_shard 1) = Some 20"
    by (simp_all add: hash_pair_to_shard_def no_hash_def stale_shard_def typedef_shard_def
          failed_files_def file_with_def)
  from it rest show ?thesis
    by (simp add: first_update second_update [unfolded opened_index_def] free_files_def
          failed_files_def)
qed

subsection \<open>An update after a failed update\<close>

lemma index_die_struct:
  "di_shards dindex 0 = stale_shard \<Longrightarrow>
   index_die no_hash True True dindex ''foo'' 0x13 0 30 12 =
     Some (None, dindex\<lparr>di_shards := (di_shards dindex)(0 := loop_shard)\<rparr>)"
  apply (simp add: index_die_def index_die_shard_def hash_pair_to_shard_def SHARD_BITS_def
           no_hash_def Let_def stale_shard_def typedef_shard_def)
  apply (subst chain_walk.simps)
  apply (simp add: SIZE_MAX_def)
  apply (subst chain_walk.simps)
  apply (auto simp: append_die_entry_def loop_shard_def fun_eq_iff SIZE_MAX_def)
  done

lemma index_die_stale_typedef:
  "index_die no_hash True True failed_index ''foo'' 0x16 0 30 12 = Some (None, failed_index)"
  apply (simp add: index_die_def index_die_shard_def hash_pair_to_shard_def SHARD_BITS_def
           no_hash_def Let_def failed_index_def free_files_def stale_shard_def
           typedef_shard_def)
  apply (subst chain_walk.simps)
  apply (simp add: SIZE_MAX_def)
  apply (subst chain_walk.simps)
  apply (simp add: opened_index_def drgn_dwarf_index_open_def variable_index_def SIZE_MAX_def)
  done

lemma no_chain_loop: "\<not> is_chain (sh_entries loop_shard) 1 c"
  by (induction c) (simp_all add: loop_shard_def SIZE_MAX_def)

lemma chain_of_loop: "chain_of loop_shard ''foo'' = None"
proof (cases "chain_of loop_shard ''foo''")
  case None
  then show ?thesis .
next
  case (Some c)
  then have "is_chain (sh_entries loop_shard) 0 c"
    by (simp add: chain_of_def chain_from_is_chain loop_shard_def)
  then have "\<exists>rest. is_chain (sh_entries loop_shard) 1 rest"
    by (cases c) (auto simp: loop_shard_def SIZE_MAX_def)
  with no_chain_loop show ?thesis by blast
qed

lemma chain_walk_loop_aux:
  "chain_walk entries tag h i = Some y \<Longrightarrow>
   entries = sh_entries loop_shard \<longrightarrow> tag = 0x16 \<longrightarrow> (i = 0 \<or> i = 1) \<longrightarrow> False"
  apply (erule chain_walk.raw_induct [rotated])
  subgoal premises p for walk entries tag h i y
  proof (intro impI)
    assume e: "entries = sh_entries loop_shard" and t: "tag = 0x16" and i: "i = 0 \<or> i = 1"
    from p(2) e t i have "walk entries tag h 1 = Some y"
      by (auto simp: loop_shard_def SIZE_MAX_def split: if_splits)
    from p(1) [OF this] e t show False by simp
  qed
  done

lemma chain_walk_loop: "chain_walk (sh_entries loop_shard) 0x16 0 0 = None"
  using chain_walk_loop_aux [of "sh_entries loop_shard" "0x16" 0 0]
  by (cases "chain_walk (sh_entries loop_shard) 0x16 0 0") auto

lemma struct_index:
  "index_cus 4 no_hash can_allocate
     ((drgn_dwarf_index_open failed_index 30 (file_with [struct_unit]))\<lparr>di_opened := []\<rparr>)
     [struct_unit] =
   Some (None,
     (drgn_dwarf_index_open failed_index 30 (file_with [struct_unit]))
       \<lparr>di_opened := [], di_shards := (\<lambda>i. empty_shard)(0 := loop_shard)\<rparr>)"
  by (simp add: failed_index_def free_files_def opened_index_def drgn_dwarf_index_open_def
        struct_unit_def walk_defs2 variable_index_def index_die_struct)

lemma third_update:
  "drgn_dwarf_index_update 4 no_hash can_allocate
     (drgn_dwarf_index_open failed_index 30 (file_with [struct_unit])) =
   Some (None,
     (drgn_dwarf_index_open failed_index 30 (file_with [struct_unit]))
       \<lparr>di_opened := [], di_shards := (\<lambda>i. empty_shard)(0 := loop_shard),
        di_indexed := [10, 30]\<rparr>)"
proof -
  have o: "di_opened (drgn_dwarf_index_open failed_index 30 (file_with [struct_unit])) = [30]"
    "file_of ((drgn_dwarf_index_open failed_index 30 (file_with [struct_unit]))
       \<lparr>di_opened := []\<rparr>) 30 = file_with [struct_unit]"
    "di_indexed (drgn_dwarf_index_open failed_index 30 (file_with [struct_unit])) = [10]"
    by (simp_all add: failed_index_def free_files_def opened_index_def
          drgn_dwarf_index_open_def variable_index_def file_of_def)
  have fw: "df_reloc_err (file_with [struct_unit]) = None"
    "df_debug_str (file_with [struct_unit]) = [0]"
    "df_cus (file_with [struct_unit]) = Inr [struct_unit]"
    by (simp_all add: file_with_def)
  show ?thesis
    unfolding drgn_dwarf_index_update_def Let_def o
    by (simp add: fw o struct_index del: index_cus.simps)
qed

text \<open>
  C3 does not hold of the code. The first update indexes the variable \<open>foo\<close> of the file
  10, and the second, of the file 20 with the type \<open>foo\<close>, fails: the index it returns has
  one entry in use in the first shard, the entry 0, whose \<open>de_next\<close> is still 1, so that
  the chain that \<^verbatim>\<open>index_die\<close> walks for \<open>foo\<close> goes on to the dropped cell 1. A call
  of \<^verbatim>\<open>index_die\<close> for a structure \<open>foo\<close> of a file 30 walks to that cell, takes it for
  the end of the chain, writes the new entry into the same cell 1, the first one free, and
  sets \<open>de_next\<close> of the cell to 1: the new entry is its own successor. That call is the
  one of a third update, of the file 30, which succeeds. From then on the chain of \<open>foo\<close>
  never ends: a call of \<^verbatim>\<open>index_die\<close> for a type \<open>foo\<close> does not return, and a lookup
  of \<open>foo\<close> at the entry 1 returns the entry 1 and stays there. A call of \<^verbatim>\<open>index_die\<close>
  for a type \<open>foo\<close> made in place of the one for the structure finds the dropped entry of
  the freed file 20 and leaves the index as it is, the new type not indexed.
\<close>

theorem index_die_self_loop:
  "drgn_dwarf_index_update 4 no_hash can_allocate
      (drgn_dwarf_index_open empty_index 10 (file_with [variable_unit])) =
     Some (None, variable_index) \<and>
   drgn_dwarf_index_update 4 no_hash can_allocate
      (drgn_dwarf_index_open variable_index 20 (file_with [typedef_unit])) =
     Some (Some truncated, failed_index) \<and>
   chain_of (di_shards failed_index 0) ''foo'' = Some [0, 1] \<and>
   index_die no_hash True True failed_index ''foo'' DW_TAG_structure_type 0 30 12 =
     Some (None, failed_index\<lparr>di_shards := (di_shards failed_index)(0 := loop_shard)\<rparr>) \<and>
   index_die no_hash True True failed_index ''foo'' DW_TAG_typedef 0 30 12 =
     Some (None, failed_index) \<and>
   (\<exists>dindex.
      drgn_dwarf_index_update 4 no_hash can_allocate
        (drgn_dwarf_index_open failed_index 30 (file_with [struct_unit])) =
        Some (None, dindex) \<and>
      di_shards dindex 0 = loop_shard) \<and>
   sh_entries loop_shard 1 =
     Some \<lparr>de_tag = DW_TAG_structure_type, de_file_name_hash = 0, de_next = 1, de_file = 30,
           de_offset = 12\<rparr> \<and>
   chain_of loop_shard ''foo'' = None \<and>
   chain_walk (sh_entries loop_shard) DW_TAG_typedef 0 0 = None \<and>
   iterator_next (sh_entries loop_shard) [] 1 = Some (Inr (1, 1))"
proof -
  have s: "di_shards failed_index 0 = stale_shard"
    by (simp add: failed_index_def free_files_def)
  have c: "chain_of stale_shard ''foo'' = Some [0, 1]"
    by (simp add: chain_of_def chain_from_is_chain stale_shard_def typedef_shard_def
          SIZE_MAX_def)
  have it: "iterator_next (sh_entries loop_shard) [] 1 = Some (Inr (1, 1))"
    by (subst iterator_next.simps)
       (simp add: loop_shard_def matches_tag_def SIZE_MAX_def)
  have cell: "sh_entries loop_shard 1 =
     Some \<lparr>de_tag = 0x13, de_file_name_hash = 0, de_next = 1, de_file = 30, de_offset = 12\<rparr>"
    by (simp add: loop_shard_def)
  have u2: "drgn_dwarf_index_update 4 no_hash can_allocate
      (drgn_dwarf_index_open variable_index 20 (file_with [typedef_unit])) =
     Some (Some truncated, failed_index)"
    using second_update by (simp add: failed_index_def opened_index_def)
  show ?thesis
    using index_die_struct [OF s] chain_walk_loop index_die_stale_typedef
    by (simp add: first_update u2 s c it cell chain_of_loop third_update
          DW_TAG_structure_type_def DW_TAG_typedef_def
          del: One_nat_def)
qed

end
